theory Spec2Isabelle
  imports Complex_Main "HOL-Library.Char_ord" "HOL-Library.List_Lexorder"
    "HOL-Library.Multiset"
begin

section \<open>Data model (src/types/index.ts and the initial schema migration)\<close>

text \<open>
  The enumerations of \<^verbatim>\<open>src/types/index.ts\<close>, which are also the SQL enum types of the
  schema. \<^verbatim>\<open>StatutDemande\<close> and \<^verbatim>\<open>StatutValidation\<close> both have a member
  \<^verbatim>\<open>'rejete'\<close>; the member of \<^verbatim>\<open>StatutValidation\<close> is written \<open>rejete_v\<close> here.
\<close>

datatype UserRole = chauffeur | pompiste | superviseur | directeur | admin

datatype StatutDemande =
  en_attente | valide_superviseur | valide_pompiste | valide_dg | rejete

datatype StatutValidation = approuve | rejete_v

text \<open>
  The interfaces, one record each. Field names carry a prefix because record fields are
  global names. Timestamps are natural numbers (milliseconds); the joined, optional
  fields of the interfaces (\<^verbatim>\<open>utilisateur\<close>, \<^verbatim>\<open>vehicule\<close>, ...) are display data that
  no handler below reads, and are left out.
\<close>

record User =
  u_id :: string
  u_nom :: string
  u_email :: string
  u_role :: UserRole
  u_actif :: bool
  u_date_creation :: nat

record Vehicule =
  v_id :: string
  v_immatriculation :: string
  v_id_type :: string
  v_actif :: bool

record DemandeCarburant =
  d_id :: string
  d_id_utilisateur :: string
  d_id_vehicule :: string
  d_km_compteur :: int
  d_site :: string
  d_mission :: string
  d_quantite_demandee :: real
  d_quantite_servie :: "real option"
  d_raison :: string
  d_statut :: StatutDemande
  d_date_demande :: nat
  d_date_modification :: nat

record Justificatif =
  j_id :: string
  j_id_demande :: string
  j_url_fichier :: string
  j_type_fichier :: string
  j_nom_fichier :: string
  j_taille_fichier :: nat

record Validation =
  val_id :: string
  val_id_demande :: string
  val_valide_par :: "string option"
  val_niveau_validation :: nat
  val_statut_validation :: StatutValidation
  val_commentaire :: "string option"
  val_date_validation :: nat

record LogAction =
  l_id :: string
  l_utilisateur_id :: "string option"
  l_action :: string
  l_date_action :: nat
  l_details :: "string option"

text \<open>A browser \<^verbatim>\<open>File\<close>: the three properties the upload code reads.\<close>

record File =
  f_name :: string
  f_type :: string
  f_size :: nat

text \<open>The form data of \<^verbatim>\<open>NewFuelRequest.tsx\<close>; an empty number field is \<open>None\<close>.\<close>

record FuelRequestForm =
  id_vehicule :: string
  km_compteur :: "int option"
  site :: string
  mission :: string
  quantite_demandee :: "real option"
  raison :: string

datatype toast = Toast_error string | Toast_success string

text \<open>
  The state every handler works on: the tables of the hosted database, the storage
  bucket, the authenticated session, and the React state of the two pages
  (\<^verbatim>\<open>FuelRequests\<close>: \<open>demandes\<close>, \<open>loading\<close>, \<open>showModal\<close>; \<^verbatim>\<open>NewFuelRequest\<close>:
  \<open>vehicules\<close>, its own \<^verbatim>\<open>loading\<close> as \<open>loading_form\<close>, \<open>uploadedFiles\<close>, the form's
  \<open>errors\<close>, and the router's \<open>location\<close>), with \<open>user\<close> the value of
  \<^verbatim>\<open>useAuth()\<close> and \<open>toasts\<close> the messages shown so far, oldest first.
\<close>

record world =
  tbl_utilisateurs :: "User list"
  tbl_vehicules :: "Vehicule list"
  tbl_demandes_carburant :: "DemandeCarburant list"
  tbl_validations :: "Validation list"
  tbl_justificatifs :: "Justificatif list"
  tbl_logs :: "LogAction list"
  bucket_justificatifs :: "string list"
  auth_uid :: "string option"
  user :: "User option"
  demandes :: "DemandeCarburant list"
  loading :: bool
  showModal :: bool
  vehicules :: "Vehicule list"
  loading_form :: bool
  uploadedFiles :: "File list"
  errors :: "(string \<times> string) list"
  location :: string
  toasts :: "toast list"

text \<open>
  What a handler call does not decide itself: the clock, the identifiers the database
  generates, the order in which the database returns rows that an ORDER BY leaves
  tied (\<open>tie_order\<close>: among rows of equal date, the one with the larger number comes
  first), JavaScript's number formatting, the public URL of a stored file, and whether
  a request to the hosted service fails for a reason the schema does not model
  (network, quota, a column type or precision).
\<close>

record env =
  now :: nat
  uuid_generate_v4 :: "nat \<Rightarrow> string"
  tie_order :: "DemandeCarburant \<Rightarrow> nat"
  number_text :: "real \<Rightarrow> string"
  getPublicUrl :: "string \<Rightarrow> string"
  fetch_error :: bool
  vehicules_error :: bool
  update_error :: bool
  validation_error :: bool
  log_error :: bool
  insert_error :: bool
  upload_error :: "File \<Rightarrow> bool"
  justificatifs_error :: bool

datatype db_error =
  Request_failed | Policy_violation | Foreign_key_violation | Not_null_violation

text \<open>
  How a handler was left: an early \<^verbatim>\<open>return\<close>, the form's validation stopping the
  submission, the "not allowed" branch, the catch block, or the last line.
\<close>

datatype handler_exit = Returned | Champs_invalides | Non_autorisee | Erreur | Succes

section \<open>The database: row-level-security policies and constraints\<close>

text \<open>The role of the session's row in \<^verbatim>\<open>utilisateurs\<close>, as the policies look it up.\<close>

definition db_role :: "world \<Rightarrow> UserRole option" where
  "db_role w =
     (case auth_uid w of
        None \<Rightarrow> None
      | Some uid \<Rightarrow> map_option u_role (find (\<lambda>u. u_id u = uid) (tbl_utilisateurs w)))"

definition role_in :: "world \<Rightarrow> UserRole list \<Rightarrow> bool" where
  "role_in w rs = (case db_role w of None \<Rightarrow> False | Some r \<Rightarrow> r \<in> set rs)"

text \<open>Policy "Users can read relevant fuel requests" (FOR SELECT).\<close>

definition policy_select_demande :: "world \<Rightarrow> DemandeCarburant \<Rightarrow> bool" where
  "policy_select_demande w d =
     (auth_uid w \<noteq> None \<and>
      (auth_uid w = Some (d_id_utilisateur d) \<or>
       role_in w [superviseur, directeur, admin, pompiste]))"

text \<open>Policy "Chauffeurs can create fuel requests" (FOR INSERT).\<close>

definition policy_insert_demande :: "world \<Rightarrow> DemandeCarburant \<Rightarrow> bool" where
  "policy_insert_demande w d =
     (auth_uid w = Some (d_id_utilisateur d) \<and> role_in w [chauffeur])"

text \<open>Policy "Authorized users can update fuel requests" (FOR UPDATE).\<close>

definition policy_update_demande :: "world \<Rightarrow> bool" where
  "policy_update_demande w = role_in w [superviseur, directeur, admin, pompiste]"

text \<open>Policy "Authorized users can create validations" (FOR INSERT).\<close>

definition policy_insert_validation :: "world \<Rightarrow> Validation \<Rightarrow> bool" where
  "policy_insert_validation w v =
     (auth_uid w \<noteq> None \<and> val_valide_par v = auth_uid w \<and>
      role_in w [superviseur, directeur, admin, pompiste])"

text \<open>Policy "Users can upload justificatifs for their requests" (FOR INSERT).\<close>

definition policy_insert_justificatif :: "world \<Rightarrow> Justificatif \<Rightarrow> bool" where
  "policy_insert_justificatif w j =
     (auth_uid w \<noteq> None \<and>
      list_ex (\<lambda>dc. d_id dc = j_id_demande j \<and> auth_uid w = Some (d_id_utilisateur dc))
        (tbl_demandes_carburant w))"

text \<open>
  \<^verbatim>\<open>.order('date_demande', { ascending: false })\<close>: the rows by descending
  \<^verbatim>\<open>date_demande\<close>. The query gives no second sort key, so rows of equal date come
  in whatever order the database picks, here \<open>tie_order\<close>.
\<close>

definition newest_first :: "env \<Rightarrow> DemandeCarburant list \<Rightarrow> DemandeCarburant list" where
  "newest_first e rows = rev (sort_key d_date_demande (sort_key (tie_order e) rows))"

text \<open>
  \<^verbatim>\<open>.from('demandes_carburant').select(...).order(...)\<close> with an optional
  \<^verbatim>\<open>.eq('id_utilisateur', ...)\<close>: the rows the policy lets the session read,
  filtered, newest first.
\<close>

definition db_select_demandes ::
  "env \<Rightarrow> world \<Rightarrow> string option \<Rightarrow> db_error + DemandeCarburant list" where
  "db_select_demandes e w eq_id_utilisateur =
     (if fetch_error e then Inl Request_failed
      else Inr (newest_first e
             (filter (\<lambda>d. policy_select_demande w d \<and>
                          (case eq_id_utilisateur of
                             None \<Rightarrow> True
                           | Some uid \<Rightarrow> d_id_utilisateur d = uid))
                (tbl_demandes_carburant w))))"

text \<open>
  \<^verbatim>\<open>.from('demandes_carburant').update({ statut }).eq('id', demandeId)\<close>. A row the
  update policy hides is not updated and that is no error; the trigger
  \<^verbatim>\<open>update_demandes_carburant_modtime\<close> stamps every updated row.
\<close>

definition update_rows ::
  "env \<Rightarrow> string \<Rightarrow> StatutDemande \<Rightarrow> DemandeCarburant list \<Rightarrow> DemandeCarburant list" where
  "update_rows e demandeId newStatut rows =
     map (\<lambda>r. if d_id r = demandeId
               then r\<lparr>d_statut := newStatut, d_date_modification := now e\<rparr>
               else r) rows"

definition db_update_statut ::
  "env \<Rightarrow> world \<Rightarrow> string \<Rightarrow> StatutDemande \<Rightarrow> db_error + world" where
  "db_update_statut e w demandeId newStatut =
     (if update_error e then Inl Request_failed
      else if \<not> policy_update_demande w then Inr w
      else Inr (w\<lparr>tbl_demandes_carburant :=
             update_rows e demandeId newStatut (tbl_demandes_carburant w)\<rparr>))"

text \<open>
  \<^verbatim>\<open>.from('validations').insert({...})\<close>: refused by the insert policy, and by the
  foreign key \<^verbatim>\<open>id_demande REFERENCES demandes_carburant(id)\<close>.
\<close>

definition db_insert_validation :: "env \<Rightarrow> world \<Rightarrow> Validation \<Rightarrow> db_error + world" where
  "db_insert_validation e w v =
     (if validation_error e then Inl Request_failed
      else if \<not> policy_insert_validation w v then Inl Policy_violation
      else if \<not> list_ex (\<lambda>dc. d_id dc = val_id_demande v) (tbl_demandes_carburant w)
        then Inl Foreign_key_violation
      else Inr (w\<lparr>tbl_validations := tbl_validations w @ [v]\<rparr>))"

text \<open>
  \<^verbatim>\<open>supabase.rpc('log_action', ...)\<close>, the SQL function \<^verbatim>\<open>log_action\<close>. Every caller
  awaits it without reading the error it resolves to, so a failed call leaves the
  world as it is. The insert policy of \<^verbatim>\<open>logs\<close> admits any authenticated session;
  \<^verbatim>\<open>utilisateur_id\<close> references \<^verbatim>\<open>utilisateurs(id)\<close>.
\<close>

definition rpc_log_action ::
  "env \<Rightarrow> world \<Rightarrow> nat \<Rightarrow> string option \<Rightarrow> string \<Rightarrow> string \<Rightarrow> world" where
  "rpc_log_action e w k user_id action_text details_text =
     (if log_error e \<or> auth_uid w = None \<or>
         (case user_id of
            None \<Rightarrow> False
          | Some uid \<Rightarrow> \<not> list_ex (\<lambda>u. u_id u = uid) (tbl_utilisateurs w))
      then w
      else w\<lparr>tbl_logs := tbl_logs w @
             [\<lparr>l_id = uuid_generate_v4 e k, l_utilisateur_id = user_id,
               l_action = action_text, l_date_action = now e,
               l_details = Some details_text\<rparr>]\<rparr>)"

section \<open>Helpers of the handlers\<close>

definition toast_error :: "string \<Rightarrow> world \<Rightarrow> world" where
  "toast_error msg w = w\<lparr>toasts := toasts w @ [Toast_error msg]\<rparr>"

definition toast_success :: "string \<Rightarrow> world \<Rightarrow> world" where
  "toast_success msg w = w\<lparr>toasts := toasts w @ [Toast_success msg]\<rparr>"

text \<open>The messages shown since an earlier state.\<close>

definition new_toasts :: "world \<Rightarrow> world \<Rightarrow> toast list" where
  "new_toasts w w' = drop (length (toasts w)) (toasts w')"

text \<open>Template literals: a \<^verbatim>\<open>StatutValidation\<close> and a natural number as text.\<close>

fun statut_text :: "StatutValidation \<Rightarrow> string" where
  "statut_text approuve = ''approuve''"
| "statut_text rejete_v = ''rejete''"

definition digit_text :: "nat \<Rightarrow> string" where
  "digit_text n = [''0123456789'' ! n]"

function nat_text :: "nat \<Rightarrow> string" where
  "nat_text n = (if n < 10 then digit_text n else nat_text (n div 10) @ digit_text (n mod 10))"
  by pat_completeness auto
termination
  by (relation "measure id") auto

declare nat_text.simps [simp del]

section \<open>The page FuelRequests (src/unnamed/part_004)\<close>

text \<open>
  \<^verbatim>\<open>fetchDemandes\<close> (lines 36-72): a chauffeur's query is narrowed to the rows of that
  user; on an error the list is left as it was and an error message is shown.
\<close>

definition fetchDemandes :: "env \<Rightarrow> world \<Rightarrow> world" where
  "fetchDemandes e w =
     (case db_select_demandes e w
             (case user w of
                None \<Rightarrow> None
              | Some u \<Rightarrow> if u_role u = chauffeur then Some (u_id u) else None) of
        Inl err \<Rightarrow> (toast_error ''Erreur lors du chargement des demandes'' w)\<lparr>loading := False\<rparr>
      | Inr data \<Rightarrow> w\<lparr>demandes := data, loading := False\<rparr>)"

text \<open>
  Lines 83-95 of \<^verbatim>\<open>handleValidation\<close>: the chain of conditionals that picks the new
  status and the validation level from the caller's role and the request's status;
  \<open>None\<close> is the final \<^verbatim>\<open>else\<close> branch. The role is \<open>None\<close> when \<^verbatim>\<open>user\<close> is null
  (\<^verbatim>\<open>user?.role\<close>).
\<close>

definition determine_next_status ::
  "UserRole option \<Rightarrow> StatutDemande \<Rightarrow> StatutValidation \<Rightarrow> (StatutDemande \<times> nat) option" where
  "determine_next_status r st statut =
     (if r = Some superviseur \<and> st = en_attente
        then Some (if statut = approuve then valide_superviseur else rejete, 1)
      else if r = Some pompiste \<and> st = valide_superviseur
        then Some (if statut = approuve then valide_pompiste else rejete, 2)
      else if r = Some directeur \<and> st = valide_pompiste
        then Some (if statut = approuve then valide_dg else rejete, 3)
      else None)"

text \<open>
  \<^verbatim>\<open>handleValidation\<close> (lines 74-132). The request is looked up in the page's list
  \<open>demandes\<close>, not in the database. The three writes are three separate requests; an
  error of the first two is thrown to the catch block, the result of the third is not
  read. After the success message the list is fetched again and the modal is closed.
\<close>

definition handleValidation ::
  "env \<Rightarrow> world \<Rightarrow> string \<Rightarrow> StatutValidation \<Rightarrow> string option \<Rightarrow> handler_exit \<times> world" where
  "handleValidation e w demandeId statut commentaire =
     (case find (\<lambda>d. d_id d = demandeId) (demandes w) of
        None \<Rightarrow> (Returned, w)
      | Some demande \<Rightarrow>
          (case determine_next_status (map_option u_role (user w)) (d_statut demande) statut of
             None \<Rightarrow> (Non_autorisee, toast_error ''Action non autorisee'' w)
           | Some (newStatut, niveauValidation) \<Rightarrow>
               (case db_update_statut e w demandeId newStatut of
                  Inl updateError \<Rightarrow> (Erreur, toast_error ''Erreur lors de la validation'' w)
                | Inr w1 \<Rightarrow>
                    (case db_insert_validation e w1
                            \<lparr>val_id = uuid_generate_v4 e 0, val_id_demande = demandeId,
                              val_valide_par = map_option u_id (user w),
                              val_niveau_validation = niveauValidation,
                              val_statut_validation = statut,
                              val_commentaire = commentaire,
                              val_date_validation = now e\<rparr> of
                       Inl validationError \<Rightarrow>
                         (Erreur, toast_error ''Erreur lors de la validation'' w1)
                     | Inr w2 \<Rightarrow>
                         (Succes,
                          (fetchDemandes e
                            (toast_success
                              (if statut = approuve then ''Demande approuvee avec succes''
                               else ''Demande rejetee avec succes'')
                              (rpc_log_action e w2 1 (map_option u_id (user w))
                                 (''Validation '' @ statut_text statut @ '' - Niveau '' @
                                    nat_text niveauValidation)
                                 (''Demande '' @ demandeId @ '' - '' @
                                    (case commentaire of None \<Rightarrow> [] | Some c \<Rightarrow> c)))))
                          \<lparr>showModal := False\<rparr>)))))"

text \<open>\<^verbatim>\<open>canValidate\<close> (lines 151-164): whether the page shows the two decision buttons.\<close>

definition canValidate :: "world \<Rightarrow> DemandeCarburant \<Rightarrow> bool" where
  "canValidate w demande =
     (case user w of
        None \<Rightarrow> False
      | Some u \<Rightarrow>
          (case u_role u of
             superviseur \<Rightarrow> d_statut demande = en_attente
           | pompiste \<Rightarrow> d_statut demande = valide_superviseur
           | directeur \<Rightarrow> d_statut demande = valide_pompiste
           | _ \<Rightarrow> False))"

section \<open>The page NewFuelRequest (src/pages/NewFuelRequest.tsx)\<close>

text \<open>
  \<^verbatim>\<open>fetchVehicules\<close> (lines 34-51): the vehicles the form's select offers are the rows
  with \<^verbatim>\<open>actif = true\<close> at the time the page is opened, by registration. The policy
  "All authenticated users can read vehicles" admits every authenticated session.
\<close>

definition fetchVehicules :: "env \<Rightarrow> world \<Rightarrow> world" where
  "fetchVehicules e w =
     (if vehicules_error e then toast_error ''Erreur lors du chargement des vehicules'' w
      else w\<lparr>vehicules :=
             sort_key v_immatriculation
               (filter (\<lambda>v. auth_uid w \<noteq> None \<and> v_actif v) (tbl_vehicules w))\<rparr>)"

text \<open>
  \<^verbatim>\<open>.from('demandes_carburant').insert({...data, id_utilisateur, statut}).select().single()\<close>.
  The columns \<^verbatim>\<open>km_compteur\<close> and \<^verbatim>\<open>quantite_demandee\<close> are NOT NULL, the insert
  policy must hold of the new row, and \<^verbatim>\<open>id_vehicule\<close> references \<^verbatim>\<open>vehicules(id)\<close>;
  the schema has no constraint on the vehicle's \<^verbatim>\<open>actif\<close> flag. The database sets
  the identifier and both dates.
\<close>

definition db_insert_demande ::
  "env \<Rightarrow> world \<Rightarrow> FuelRequestForm \<Rightarrow> string \<Rightarrow> StatutDemande \<Rightarrow>
     db_error + DemandeCarburant \<times> world" where
  "db_insert_demande e w data uid st =
     (if insert_error e then Inl Request_failed
      else
        (case (km_compteur data, quantite_demandee data) of
           (Some km, Some q) \<Rightarrow>
             (let row = \<lparr>d_id = uuid_generate_v4 e 0, d_id_utilisateur = uid,
                         d_id_vehicule = id_vehicule data, d_km_compteur = km,
                         d_site = site data, d_mission = mission data,
                         d_quantite_demandee = q, d_quantite_servie = None,
                         d_raison = raison data, d_statut = st,
                         d_date_demande = now e, d_date_modification = now e\<rparr>
              in if \<not> policy_insert_demande w row then Inl Policy_violation
                 else if \<not> list_ex (\<lambda>v. v_id v = id_vehicule data) (tbl_vehicules w)
                   then Inl Foreign_key_violation
                 else Inr (row, w\<lparr>tbl_demandes_carburant := tbl_demandes_carburant w @ [row]\<rparr>))
         | _ \<Rightarrow> Inl Not_null_violation))"

text \<open>\<^verbatim>\<open>file.name.split('.').pop()\<close>: the part of the name after its last dot.\<close>

fun split_at :: "char \<Rightarrow> string \<Rightarrow> string list" where
  "split_at c [] = [[]]"
| "split_at c (x # xs) =
     (if x = c then [] # split_at c xs
      else (case split_at c xs of
              [] \<Rightarrow> [[x]]
            | y # ys \<Rightarrow> (x # y) # ys))"

definition fileExt :: "File \<Rightarrow> string" where
  "fileExt file = last (split_at (CHR ''.'') (f_name file))"

definition fileName :: "env \<Rightarrow> string \<Rightarrow> File \<Rightarrow> string" where
  "fileName e demandeId file = demandeId @ ''/'' @ nat_text (now e) @ ''.'' @ fileExt file"

text \<open>
  \<^verbatim>\<open>uploadFiles\<close> (lines 77-108). Every selected file is uploaded; whether the storage
  service accepts one is \<open>upload_error\<close>. \<^verbatim>\<open>Promise.all\<close> rejects when one upload
  fails, the files that were accepted stay in the bucket, and the rows of
  \<^verbatim>\<open>justificatifs\<close> are inserted only when every upload succeeded. The result is the
  thrown error, if any, and the world.
\<close>

definition uploadFiles :: "env \<Rightarrow> world \<Rightarrow> string \<Rightarrow> db_error option \<times> world" where
  "uploadFiles e w demandeId =
     (let w1 = w\<lparr>bucket_justificatifs := bucket_justificatifs w @
                   map (fileName e demandeId)
                     (filter (\<lambda>file. \<not> upload_error e file) (uploadedFiles w))\<rparr>;
          rows = map (\<lambda>(k, file).
                   \<lparr>j_id = uuid_generate_v4 e (Suc k), j_id_demande = demandeId,
                     j_url_fichier = getPublicUrl e (fileName e demandeId file),
                     j_type_fichier = f_type file, j_nom_fichier = f_name file,
                     j_taille_fichier = f_size file\<rparr>)
                   (enumerate 0 (uploadedFiles w))
      in if list_ex (upload_error e) (uploadedFiles w) then (Some Request_failed, w1)
         else if justificatifs_error e then (Some Request_failed, w1)
         else if list_ex (\<lambda>j. \<not> policy_insert_justificatif w1 j) rows
           then (Some Policy_violation, w1)
         else (None, w1\<lparr>tbl_justificatifs := tbl_justificatifs w1 @ rows\<rparr>))"

text \<open>
  \<^verbatim>\<open>onSubmit\<close> (lines 110-148). An error of the insert and an error thrown by
  \<^verbatim>\<open>uploadFiles\<close> reach the same catch block; the \<^verbatim>\<open>finally\<close> block resets
  \<^verbatim>\<open>loading\<close>.
\<close>

definition onSubmit :: "env \<Rightarrow> world \<Rightarrow> FuelRequestForm \<Rightarrow> handler_exit \<times> world" where
  "onSubmit e w data =
     (case user w of
        None \<Rightarrow> (Returned, w)
      | Some u \<Rightarrow>
          (case db_insert_demande e w data (u_id u) en_attente of
             Inl demandeError \<Rightarrow>
               (Erreur,
                (toast_error ''Erreur lors de la creation de la demande'' w)
                \<lparr>loading_form := False\<rparr>)
           | Inr (demande, w1) \<Rightarrow>
               (case (if uploadedFiles w1 \<noteq> [] then uploadFiles e w1 (d_id demande)
                      else (None, w1)) of
                  (Some uploadError, w2) \<Rightarrow>
                    (Erreur,
                     (toast_error ''Erreur lors de la creation de la demande'' w2)
                     \<lparr>loading_form := False\<rparr>)
                | (None, w2) \<Rightarrow>
                    (Succes,
                     (toast_success ''Demande creee avec succes''
                        (rpc_log_action e w2 (Suc (length (uploadedFiles w))) (Some (u_id u))
                           ''Creation demande carburant''
                           (''Vehicule: '' @ id_vehicule data @ '', Quantite: '' @
                              (case quantite_demandee data of
                                 None \<Rightarrow> []
                               | Some q \<Rightarrow> number_text e q) @ ''L'')))
                     \<lparr>location := ''/fuel-requests'', loading_form := False\<rparr>))))"

text \<open>
  The rules given to \<^verbatim>\<open>register\<close> (lines 178, 206-209, 225-228, 243, 258, 274), in the
  order of the fields: \<^verbatim>\<open>required\<close> fails on an empty field, \<^verbatim>\<open>min\<close> on a smaller
  number; a field reports its first failing rule.
\<close>

definition required :: "string \<Rightarrow> string \<Rightarrow> string \<Rightarrow> (string \<times> string) list" where
  "required field msg v = (if v = [] then [(field, msg)] else [])"

definition validate_form :: "FuelRequestForm \<Rightarrow> (string \<times> string) list" where
  "validate_form data =
     required ''id_vehicule'' ''Le vehicule est requis'' (id_vehicule data) @
     (case km_compteur data of
        None \<Rightarrow> [(''km_compteur'', ''Le kilometrage est requis'')]
      | Some km \<Rightarrow>
          if km < 0 then [(''km_compteur'', ''Le kilometrage doit etre positif'')] else []) @
     (case quantite_demandee data of
        None \<Rightarrow> [(''quantite_demandee'', ''La quantite est requise'')]
      | Some q \<Rightarrow>
          if q < 1 / 100 then [(''quantite_demandee'', ''La quantite doit etre positive'')]
          else []) @
     required ''site'' ''Le site est requis'' (site data) @
     required ''mission'' ''La mission est requise'' (mission data) @
     required ''raison'' ''La raison est requise'' (raison data)"

text \<open>
  \<^verbatim>\<open>handleSubmit(onSubmit)\<close> (line 171): the form's submit handler runs the rules and
  calls \<^verbatim>\<open>onSubmit\<close> only when none fails.
\<close>

definition handleSubmit :: "env \<Rightarrow> world \<Rightarrow> FuelRequestForm \<Rightarrow> handler_exit \<times> world" where
  "handleSubmit e w data =
     (if validate_form data \<noteq> [] then (Champs_invalides, w\<lparr>errors := validate_form data\<rparr>)
      else onSubmit e (w\<lparr>errors := []\<rparr>) data)"

section \<open>A small fleet, used to run the handlers\<close>

definition mk_user :: "string \<Rightarrow> UserRole \<Rightarrow> User" where
  "mk_user i r = \<lparr>u_id = i, u_nom = i, u_email = i @ ''@alh.com'', u_role = r,
                   u_actif = True, u_date_creation = 0\<rparr>"

definition mk_demande :: "string \<Rightarrow> string \<Rightarrow> StatutDemande \<Rightarrow> nat \<Rightarrow> DemandeCarburant" where
  "mk_demande i uid st t =
     \<lparr>d_id = i, d_id_utilisateur = uid, d_id_vehicule = ''V1'', d_km_compteur = 1000,
       d_site = ''North'', d_mission = ''Transport'', d_quantite_demandee = 50,
       d_quantite_servie = None, d_raison = ''routine'', d_statut = st,
       d_date_demande = t, d_date_modification = t\<rparr>"

text \<open>
  Two drivers, one validator of each level and an administrator; an active and a
  retired vehicle; request R1 of driver D1 and request R2 of driver D2, both pending.
  Nobody is signed in and the pages are empty.
\<close>

definition fleet :: world where
  "fleet =
     \<lparr>tbl_utilisateurs =
        [mk_user ''D1'' chauffeur, mk_user ''D2'' chauffeur, mk_user ''S1'' superviseur,
         mk_user ''F1'' pompiste, mk_user ''Dir1'' directeur, mk_user ''A1'' admin],
       tbl_vehicules =
        [\<lparr>v_id = ''V1'', v_immatriculation = ''ALH-001'', v_id_type = ''T1'', v_actif = True\<rparr>,
         \<lparr>v_id = ''V2'', v_immatriculation = ''ALH-002'', v_id_type = ''T1'', v_actif = False\<rparr>],
       tbl_demandes_carburant =
        [mk_demande ''R1'' ''D1'' en_attente 10, mk_demande ''R2'' ''D2'' en_attente 20],
       tbl_validations = [], tbl_justificatifs = [], tbl_logs = [],
       bucket_justificatifs = [], auth_uid = None, user = None, demandes = [],
       loading = True, showModal = False, vehicules = [], loading_form = False,
       uploadedFiles = [], errors = [], location = ''/'', toasts = []\<rparr>"

text \<open>The session of a user whose profile is the row of \<^verbatim>\<open>utilisateurs\<close>.\<close>

definition sign_in :: "string \<Rightarrow> UserRole \<Rightarrow> world \<Rightarrow> world" where
  "sign_in i r w = w\<lparr>auth_uid := Some i, user := Some (mk_user i r)\<rparr>"

text \<open>An environment in which no request fails, and variants with one failure.\<close>

definition calm :: env where
  "calm = \<lparr>now = 1000, uuid_generate_v4 = (\<lambda>k. ''id-'' @ nat_text k),
            tie_order = (\<lambda>d. 0),
            number_text = (\<lambda>q. ''50''), getPublicUrl = (\<lambda>path. ''https://storage/'' @ path),
            fetch_error = False, vehicules_error = False, update_error = False, validation_error = False,
            log_error = False, insert_error = False, upload_error = (\<lambda>file. False),
            justificatifs_error = False\<rparr>"

text \<open>A filled-in form for vehicle \<open>vid\<close>, as in the scenario of the specification.\<close>

definition form_for :: "string \<Rightarrow> FuelRequestForm" where
  "form_for vid = \<lparr>id_vehicule = vid, km_compteur = Some 1000, site = ''North'',
                    mission = ''Transport'', quantite_demandee = Some 50,
                    raison = ''routine''\<rparr>"

definition ticket :: File where
  "ticket = \<lparr>f_name = ''ticket.pdf'', f_type = ''application/pdf'', f_size = 2048\<rparr>"

text \<open>The page of a validator who has just opened the list of requests.\<close>

definition page_of :: "string \<Rightarrow> UserRole \<Rightarrow> world" where
  "page_of i r = fetchDemandes calm (sign_in i r fleet)"

text \<open>
  Driver D1 on the form, with vehicle V2 in the select because it was still active
  when the page was opened; it has been retired since (\<open>fleet\<close>).
\<close>

definition form_page :: world where
  "form_page =
     (sign_in ''D1'' chauffeur fleet)
     \<lparr>vehicules := [\<lparr>v_id = ''V1'', v_immatriculation = ''ALH-001'', v_id_type = ''T1'',
                       v_actif = True\<rparr>,
                     \<lparr>v_id = ''V2'', v_immatriculation = ''ALH-002'', v_id_type = ''T1'',
                       v_actif = True\<rparr>]\<rparr>"

text \<open>
  The supervisor S1 decided on R1 while the list could not be fetched again: the
  decision is stored, the page still lists R1 as pending.
\<close>

definition unreloaded_after :: "StatutValidation \<Rightarrow> world" where
  "unreloaded_after statut =
     snd (handleValidation (calm\<lparr>fetch_error := True\<rparr>) (page_of ''S1'' superviseur)
            ''R1'' statut None)"

text \<open>What is stored: the tables and the bucket, without the session and the pages.\<close>

definition store_of ::
  "world \<Rightarrow> User list \<times> Vehicule list \<times> DemandeCarburant list \<times> Validation list \<times>
     Justificatif list \<times> LogAction list \<times> string list" where
  "store_of w =
     (tbl_utilisateurs w, tbl_vehicules w, tbl_demandes_carburant w, tbl_validations w,
      tbl_justificatifs w, tbl_logs w, bucket_justificatifs w)"

section \<open>The transition table and the status order of the specification\<close>

text \<open>
  The table of section 4.1, following the specification's words: for a current status
  and an actor role, the status after an approval, the status after a rejection, and
  the validation level; \<open>None\<close> where the table has no row.
\<close>

fun transition_table ::
  "StatutDemande \<Rightarrow> UserRole \<Rightarrow> (StatutDemande \<times> StatutDemande \<times> nat) option" where
  "transition_table en_attente superviseur = Some (valide_superviseur, rejete, 1)"
| "transition_table valide_superviseur pompiste = Some (valide_pompiste, rejete, 2)"
| "transition_table valide_pompiste directeur = Some (valide_dg, rejete, 3)"
| "transition_table _ _ = None"

definition table_entry ::
  "world \<Rightarrow> DemandeCarburant \<Rightarrow> (StatutDemande \<times> StatutDemande \<times> nat) option" where
  "table_entry w demande =
     (case user w of
        None \<Rightarrow> None
      | Some u \<Rightarrow> transition_table (d_statut demande) (u_role u))"

text \<open>
  A status change that a row of the table allows to a role for an outcome.
\<close>

definition table_step ::
  "UserRole \<Rightarrow> StatutValidation \<Rightarrow> StatutDemande \<Rightarrow> StatutDemande \<Rightarrow> bool" where
  "table_step r outcome old new =
     (case transition_table old r of
        None \<Rightarrow> False
      | Some (on_approve, on_reject, level) \<Rightarrow>
          new = (if outcome = approuve then on_approve else on_reject))"

text \<open>
  "Forward through the defined sequence, or terminating in rejection": the steps the
  specification allows from each status.
\<close>

fun moves_forward :: "StatutDemande \<Rightarrow> StatutDemande \<Rightarrow> bool" where
  "moves_forward en_attente b = (b = valide_superviseur \<or> b = rejete)"
| "moves_forward valide_superviseur b = (b = valide_pompiste \<or> b = rejete)"
| "moves_forward valide_pompiste b = (b = valide_dg \<or> b = rejete)"
| "moves_forward valide_dg b = False"
| "moves_forward rejete b = False"

section \<open>Names for two pieces of handleValidation\<close>

text \<open>The row that \<^verbatim>\<open>handleValidation\<close> inserts into \<^verbatim>\<open>validations\<close>.\<close>

definition new_validation ::
  "env \<Rightarrow> world \<Rightarrow> string \<Rightarrow> nat \<Rightarrow> StatutValidation \<Rightarrow> string option \<Rightarrow> Validation" where
  "new_validation e w demandeId niveau statut commentaire =
     \<lparr>val_id = uuid_generate_v4 e 0, val_id_demande = demandeId,
       val_valide_par = map_option u_id (user w), val_niveau_validation = niveau,
       val_statut_validation = statut, val_commentaire = commentaire,
       val_date_validation = now e\<rparr>"

text \<open>
  The end of \<^verbatim>\<open>handleValidation\<close> after both writes went through: the log call, the
  success message, the new fetch and the closing of the modal.
\<close>

definition after_success ::
  "env \<Rightarrow> world \<Rightarrow> world \<Rightarrow> string \<Rightarrow> nat \<Rightarrow> StatutValidation \<Rightarrow> string option \<Rightarrow> world" where
  "after_success e w w2 demandeId niveau statut commentaire = 
      (fetchDemandes e
                            (toast_success
                              (if statut = approuve then ''Demande approuvee avec succes''
                               else ''Demande rejetee avec succes'')
                              (rpc_log_action e w2 1 (map_option u_id (user w))
                                 (''Validation '' @ statut_text statut @ '' - Niveau '' @
                                    nat_text niveau)
                                 (''Demande '' @ demandeId @ '' - '' @
                                    (case commentaire of None \<Rightarrow> [] | Some c \<Rightarrow> c)))))
                          \<lparr>showModal := False\<rparr>"

section \<open>Facts about the database operations and handleValidation\<close>

lemma determine_next_status_table:
  "determine_next_status (Some r) st statut =
     map_option (\<lambda>(a, rj, l). (if statut = approuve then a else rj, l)) (transition_table st r)"
  by (cases r; cases st) (simp_all add: determine_next_status_def)

lemma determine_next_status_no_user: "determine_next_status None st statut = None"
  by (simp add: determine_next_status_def)

lemma determine_next_status_entry:
  "determine_next_status (map_option u_role (user w)) (d_statut demande) statut =
     map_option (\<lambda>(a, rj, l). (if statut = approuve then a else rj, l)) (table_entry w demande)"
  by (cases "user w")
     (simp_all add: table_entry_def determine_next_status_no_user determine_next_status_table)

lemma db_update_statut_rows:
  "db_update_statut e w i st = Inr w1 \<Longrightarrow>
     w1 = w \<or> w1 = w\<lparr>tbl_demandes_carburant := update_rows e i st (tbl_demandes_carburant w)\<rparr>"
  by (auto simp: db_update_statut_def split: if_splits)

lemma db_insert_validation_rows:
  "db_insert_validation e w1 v = Inr w2 \<Longrightarrow> w2 = w1\<lparr>tbl_validations := tbl_validations w1 @ [v]\<rparr>"
  by (auto simp: db_insert_validation_def split: if_splits)

lemma fetchDemandes_tables:
  "tbl_demandes_carburant (fetchDemandes e w) = tbl_demandes_carburant w"
  "tbl_validations (fetchDemandes e w) = tbl_validations w"
  "tbl_logs (fetchDemandes e w) = tbl_logs w"
  "tbl_utilisateurs (fetchDemandes e w) = tbl_utilisateurs w"
  "tbl_vehicules (fetchDemandes e w) = tbl_vehicules w"
  "tbl_justificatifs (fetchDemandes e w) = tbl_justificatifs w"
  "bucket_justificatifs (fetchDemandes e w) = bucket_justificatifs w"
  "auth_uid (fetchDemandes e w) = auth_uid w"
  "user (fetchDemandes e w) = user w"
  by (simp_all add: fetchDemandes_def toast_error_def split: sum.splits)

lemma rpc_log_action_tables:
  "tbl_demandes_carburant (rpc_log_action e w k uid a d) = tbl_demandes_carburant w"
  "tbl_validations (rpc_log_action e w k uid a d) = tbl_validations w"
  "tbl_utilisateurs (rpc_log_action e w k uid a d) = tbl_utilisateurs w"
  "auth_uid (rpc_log_action e w k uid a d) = auth_uid w"
  "user (rpc_log_action e w k uid a d) = user w"
  "toasts (rpc_log_action e w k uid a d) = toasts w"
  by (simp_all add: rpc_log_action_def)

lemma update_rows_ids: "map d_id (update_rows e i st rows) = map d_id rows"
  by (induction rows) (simp_all add: update_rows_def)

lemma list_ex_update_rows:
  "list_ex (\<lambda>dc. d_id dc = j) (update_rows e i st rows) = list_ex (\<lambda>dc. d_id dc = j) rows"
  by (induction rows) (simp_all add: update_rows_def)

lemma update_rows_statut:
  assumes "r \<in> set (update_rows e i st rows)" and "d_id r = i"
  shows "d_statut r = st"
proof -
  from assms(1) obtain r0 where
    r: "r = (if d_id r0 = i then r0\<lparr>d_statut := st, d_date_modification := now e\<rparr> else r0)"
    unfolding update_rows_def by (auto simp only: set_map)
  show ?thesis
  proof (cases "d_id r0 = i")
    case True
    with r show ?thesis by simp
  next
    case False
    with r assms(2) show ?thesis by simp
  qed
qed

lemma new_validation_fields [simp]:
  "val_id_demande (new_validation e w demandeId niveau statut commentaire) = demandeId"
  "val_valide_par (new_validation e w demandeId niveau statut commentaire) =
     map_option u_id (user w)"
  "val_niveau_validation (new_validation e w demandeId niveau statut commentaire) = niveau"
  "val_statut_validation (new_validation e w demandeId niveau statut commentaire) = statut"
  by (simp_all add: new_validation_def)

lemma db_role_update [simp]:
  "db_role (w\<lparr>tbl_demandes_carburant := rows\<rparr>) = db_role w"
  by (cases "auth_uid w") (simp_all add: db_role_def)

lemma role_in_update [simp]:
  "role_in (w\<lparr>tbl_demandes_carburant := rows\<rparr>) rs = role_in w rs"
  by (simp add: role_in_def)

lemma hv_not_found:
  "find (\<lambda>d. d_id d = demandeId) (demandes w) = None \<Longrightarrow>
   handleValidation e w demandeId statut commentaire = (Returned, w)"
  by (simp add: handleValidation_def)

lemma hv_unauthorized:
  "find (\<lambda>d. d_id d = demandeId) (demandes w) = Some demande \<Longrightarrow>
   determine_next_status (map_option u_role (user w)) (d_statut demande) statut = None \<Longrightarrow>
   handleValidation e w demandeId statut commentaire =
     (Non_autorisee, toast_error ''Action non autorisee'' w)"
  by (simp add: handleValidation_def)

lemma hv_update_error:
  "find (\<lambda>d. d_id d = demandeId) (demandes w) = Some demande \<Longrightarrow>
   determine_next_status (map_option u_role (user w)) (d_statut demande) statut =
     Some (newStatut, niveau) \<Longrightarrow>
   db_update_statut e w demandeId newStatut = Inl err \<Longrightarrow>
   handleValidation e w demandeId statut commentaire =
     (Erreur, toast_error ''Erreur lors de la validation'' w)"
  by (simp add: handleValidation_def)

lemma hv_insert_error:
  "find (\<lambda>d. d_id d = demandeId) (demandes w) = Some demande \<Longrightarrow>
   determine_next_status (map_option u_role (user w)) (d_statut demande) statut =
     Some (newStatut, niveau) \<Longrightarrow>
   db_update_statut e w demandeId newStatut = Inr w1 \<Longrightarrow>
   db_insert_validation e w1 (new_validation e w demandeId niveau statut commentaire) = Inl err \<Longrightarrow>
   handleValidation e w demandeId statut commentaire =
     (Erreur, toast_error ''Erreur lors de la validation'' w1)"
  by (simp add: handleValidation_def new_validation_def)

lemma hv_success:
  "find (\<lambda>d. d_id d = demandeId) (demandes w) = Some demande \<Longrightarrow>
   determine_next_status (map_option u_role (user w)) (d_statut demande) statut =
     Some (newStatut, niveau) \<Longrightarrow>
   db_update_statut e w demandeId newStatut = Inr w1 \<Longrightarrow>
   db_insert_validation e w1 (new_validation e w demandeId niveau statut commentaire) = Inr w2 \<Longrightarrow>
   handleValidation e w demandeId statut commentaire =
     (Succes, after_success e w w2 demandeId niveau statut commentaire)"
  by (simp add: handleValidation_def new_validation_def after_success_def)

lemma hv_Succes_inv:
  assumes "handleValidation e w demandeId statut commentaire = (Succes, w')"
  shows "\<exists>demande newStatut niveau.
           find (\<lambda>d. d_id d = demandeId) (demandes w) = Some demande \<and>
           determine_next_status (map_option u_role (user w)) (d_statut demande) statut =
             Some (newStatut, niveau) \<and>
           \<not> update_error e \<and> \<not> validation_error e \<and>
           policy_update_demande w \<and> auth_uid w \<noteq> None \<and>
           map_option u_id (user w) = auth_uid w \<and>
           list_ex (\<lambda>dc. d_id dc = demandeId) (tbl_demandes_carburant w) \<and>
           w' = after_success e w
                  (w\<lparr>tbl_demandes_carburant :=
                       update_rows e demandeId newStatut (tbl_demandes_carburant w),
                     tbl_validations := tbl_validations w @
                       [new_validation e w demandeId niveau statut commentaire]\<rparr>)
                  demandeId niveau statut commentaire"
proof (cases "find (\<lambda>d. d_id d = demandeId) (demandes w)")
  case None
  with assms show ?thesis by (simp add: hv_not_found)
next
  case (Some demande)
  show ?thesis
  proof (cases "determine_next_status (map_option u_role (user w)) (d_statut demande) statut")
    case None
    with assms Some show ?thesis by (simp add: hv_unauthorized)
  next
    case d: (Some p)
    obtain newStatut niveau where p: "p = (newStatut, niveau)" by (cases p)
    show ?thesis
    proof (cases "db_update_statut e w demandeId newStatut")
      case (Inl err)
      with assms Some d p show ?thesis by (simp add: hv_update_error)
    next
      case (Inr w1)
      show ?thesis
      proof (cases "db_insert_validation e w1
                      (new_validation e w demandeId niveau statut commentaire)")
        case (Inl err)
        with assms Some d p Inr show ?thesis by (simp add: hv_insert_error)
      next
        case i: (Inr w2)
        from i have ve: "\<not> validation_error e"
          and pol: "policy_insert_validation w1
                 (new_validation e w demandeId niveau statut commentaire)"
          and fk: "list_ex (\<lambda>dc. d_id dc = demandeId) (tbl_demandes_carburant w1)"
          and w2: "w2 = w1\<lparr>tbl_validations := tbl_validations w1 @
                     [new_validation e w demandeId niveau statut commentaire]\<rparr>"
          by (auto simp: db_insert_validation_def split: if_splits)
        from Inr have ue: "\<not> update_error e"
          by (auto simp: db_update_statut_def split: if_splits)
        from Inr have "w1 = w \<or> w1 = w\<lparr>tbl_demandes_carburant :=
                         update_rows e demandeId newStatut (tbl_demandes_carburant w)\<rparr>"
          by (rule db_update_statut_rows)
        with pol have pw: "policy_update_demande w" "auth_uid w \<noteq> None"
          "map_option u_id (user w) = auth_uid w"
          by (auto simp: policy_insert_validation_def policy_update_demande_def
                new_validation_def)
        with Inr ue have w1: "w1 = w\<lparr>tbl_demandes_carburant :=
                         update_rows e demandeId newStatut (tbl_demandes_carburant w)\<rparr>"
          by (simp add: db_update_statut_def)
        from fk w1 have fk': "list_ex (\<lambda>dc. d_id dc = demandeId) (tbl_demandes_carburant w)"
          by (simp add: list_ex_update_rows)
        from assms have "w' = after_success e w w2 demandeId niveau statut commentaire"
          by (simp add: hv_success [OF Some _ Inr i] d p)
        with w1 w2 Some d p pw fk' ue ve show ?thesis by simp
      qed
    qed
  qed
qed

lemma role_in_user_row:
  assumes "role_in w rs" and "auth_uid w = Some uid"
  shows "list_ex (\<lambda>u. u_id u = uid) (tbl_utilisateurs w)"
proof -
  from assms obtain row where "find (\<lambda>u. u_id u = uid) (tbl_utilisateurs w) = Some row"
    by (auto simp: role_in_def db_role_def split: option.splits)
  then have "row \<in> set (tbl_utilisateurs w)" and "u_id row = uid"
    by (auto simp: find_Some_iff)
  then show ?thesis by (auto simp: list_ex_iff)
qed

lemma after_success_tables:
  "tbl_demandes_carburant (after_success e w w2 i n s c) = tbl_demandes_carburant w2"
  "tbl_validations (after_success e w w2 i n s c) = tbl_validations w2"
  "tbl_utilisateurs (after_success e w w2 i n s c) = tbl_utilisateurs w2"
  "auth_uid (after_success e w w2 i n s c) = auth_uid w2"
  "user (after_success e w w2 i n s c) = user w2"
  by (simp_all add: after_success_def fetchDemandes_tables toast_success_def
        rpc_log_action_tables)

lemma after_success_logs:
  "tbl_logs (after_success e w w2 i n s c) =
     tbl_logs (rpc_log_action e w2 1 (map_option u_id (user w))
        (''Validation '' @ statut_text s @ '' - Niveau '' @ nat_text n)
        (''Demande '' @ i @ '' - '' @ (case c of None \<Rightarrow> [] | Some t \<Rightarrow> t)))"
  by (simp add: after_success_def fetchDemandes_tables toast_success_def)

lemma hv_Succes_logs:
  assumes "handleValidation e w demandeId statut commentaire = (Succes, w')"
  shows "if log_error e then tbl_logs w' = tbl_logs w
         else \<exists>l. tbl_logs w' = tbl_logs w @ [l]"
proof -
  from hv_Succes_inv [OF assms] obtain newStatut niveau where
    pol: "policy_update_demande w" and au: "auth_uid w \<noteq> None"
    and us: "map_option u_id (user w) = auth_uid w"
    and w': "w' = after_success e w
                  (w\<lparr>tbl_demandes_carburant :=
                       update_rows e demandeId newStatut (tbl_demandes_carburant w),
                     tbl_validations := tbl_validations w @
                       [new_validation e w demandeId niveau statut commentaire]\<rparr>)
                  demandeId niveau statut commentaire"
    by blast
  from au obtain uid where uid: "auth_uid w = Some uid" by auto
  from pol uid have "list_ex (\<lambda>u. u_id u = uid) (tbl_utilisateurs w)"
    unfolding policy_update_demande_def by (rule role_in_user_row)
  with uid us w' show ?thesis
    by (auto simp: after_success_logs rpc_log_action_def)
qed

lemma hv_Erreur_inv:
  assumes "handleValidation e w demandeId statut commentaire = (Erreur, w')"
  shows "\<exists>demande newStatut niveau.
           find (\<lambda>d. d_id d = demandeId) (demandes w) = Some demande \<and>
           determine_next_status (map_option u_role (user w)) (d_statut demande) statut =
             Some (newStatut, niveau) \<and>
           (if update_error e then w' = toast_error ''Erreur lors de la validation'' w
            else w' = toast_error ''Erreur lors de la validation''
                   (if policy_update_demande w
                    then w\<lparr>tbl_demandes_carburant :=
                           update_rows e demandeId newStatut (tbl_demandes_carburant w)\<rparr>
                    else w))"
proof (cases "find (\<lambda>d. d_id d = demandeId) (demandes w)")
  case None
  with assms show ?thesis by (simp add: hv_not_found)
next
  case (Some demande)
  show ?thesis
  proof (cases "determine_next_status (map_option u_role (user w)) (d_statut demande) statut")
    case None
    with assms Some show ?thesis by (simp add: hv_unauthorized)
  next
    case d: (Some p)
    obtain newStatut niveau where p: "p = (newStatut, niveau)" by (cases p)
    show ?thesis
    proof (cases "db_update_statut e w demandeId newStatut")
      case (Inl err)
      then have "update_error e" by (auto simp: db_update_statut_def split: if_splits)
      with assms Some d p Inl show ?thesis by (simp add: hv_update_error)
    next
      case (Inr w1)
      then have ue: "\<not> update_error e" and
        w1: "w1 = (if policy_update_demande w
                    then w\<lparr>tbl_demandes_carburant :=
                           update_rows e demandeId newStatut (tbl_demandes_carburant w)\<rparr>
                    else w)"
        by (auto simp: db_update_statut_def split: if_splits)
      show ?thesis
      proof (cases "db_insert_validation e w1
                      (new_validation e w demandeId niveau statut commentaire)")
        case (Inl err)
        with assms Some d p Inr have "w' = toast_error ''Erreur lors de la validation'' w1"
          by (simp add: hv_insert_error [OF Some _ Inr Inl])
        with Some d p ue w1 show ?thesis by simp
      next
        case i: (Inr w2)
        with assms Some d p Inr show ?thesis by (simp add: hv_success [OF Some _ Inr i])
      qed
    qed
  qed
qed

lemma hv_exit_cases:
  "fst (handleValidation e w demandeId statut commentaire) \<noteq> Champs_invalides"
  by (simp add: handleValidation_def split: option.splits sum.splits prod.splits)

lemma hv_other_inv:
  assumes "handleValidation e w demandeId statut commentaire = (x, w')"
    and "x \<noteq> Succes" and "x \<noteq> Erreur"
  shows "w' = w \<or> w' = toast_error ''Action non autorisee'' w"
  using assms
  by (simp add: handleValidation_def split: option.splits sum.splits prod.splits)

lemma determine_next_status_once:
  "determine_next_status r st s = Some (ns, n) \<Longrightarrow> determine_next_status r ns s' = None"
  by (auto simp: determine_next_status_def split: if_splits)

lemma determine_next_status_forward:
  "determine_next_status r st s = Some (ns, n) \<Longrightarrow> moves_forward st ns"
  by (auto simp: determine_next_status_def split: if_splits)

lemma determine_next_status_terminal:
  "st = rejete \<or> st = valide_dg \<Longrightarrow> determine_next_status r st s = None"
  by (auto simp: determine_next_status_def)

lemma determine_next_status_not_chauffeur:
  "determine_next_status (map_option u_role (user w)) st s = Some p \<Longrightarrow>
     (case user w of None \<Rightarrow> None | Some u \<Rightarrow> if u_role u = chauffeur then Some (u_id u) else None) = None"
  by (cases "user w") (auto simp: determine_next_status_def split: if_splits)

lemma canValidate_determine:
  "canValidate w demande \<longleftrightarrow>
     determine_next_status (map_option u_role (user w)) (d_statut demande) statut \<noteq> None"
proof (cases "user w")
  case None
  then show ?thesis by (simp add: canValidate_def determine_next_status_def)
next
  case (Some u)
  then show ?thesis
    by (cases "u_role u") (simp_all add: canValidate_def determine_next_status_def)
qed

lemma hv_authorized_exit:
  assumes "find (\<lambda>d. d_id d = demandeId) (demandes w) = Some demande"
    and "determine_next_status (map_option u_role (user w)) (d_statut demande) statut = Some p"
  shows "fst (handleValidation e w demandeId statut commentaire) = Succes \<or>
         fst (handleValidation e w demandeId statut commentaire) = Erreur"
proof -
  obtain newStatut niveau where p: "p = (newStatut, niveau)" by (cases p)
  note d = assms(2) [unfolded p]
  show ?thesis
  proof (cases "db_update_statut e w demandeId newStatut")
    case (Inl err)
    show ?thesis by (simp add: hv_update_error [OF assms(1) d Inl])
  next
    case (Inr w1)
    show ?thesis
    proof (cases "db_insert_validation e w1
                    (new_validation e w demandeId niveau statut commentaire)")
      case (Inl err)
      show ?thesis by (simp add: hv_insert_error [OF assms(1) d Inr Inl])
    next
      case i: (Inr w2)
      show ?thesis by (simp add: hv_success [OF assms(1) d Inr i])
    qed
  qed
qed

lemma exit_to_pair: "fst p = x \<Longrightarrow> p = (x, snd p)"
  by (cases p) simp

lemma db_role_cong:
  "auth_uid w' = auth_uid w \<Longrightarrow> tbl_utilisateurs w' = tbl_utilisateurs w \<Longrightarrow>
     db_role w' = db_role w"
  by (cases "auth_uid w") (simp_all add: db_role_def)

lemma role_in_cong:
  "auth_uid w' = auth_uid w \<Longrightarrow> tbl_utilisateurs w' = tbl_utilisateurs w \<Longrightarrow>
     role_in w' rs = role_in w rs"
  by (simp add: role_in_def db_role_cong [of w' w])

lemma set_newest_first [simp]: "set (newest_first e rows) = set rows"
  by (simp add: newest_first_def)

lemma policy_select_validator:
  "auth_uid w \<noteq> None \<Longrightarrow> policy_update_demande w \<Longrightarrow> policy_select_demande w d"
  by (simp add: policy_select_demande_def policy_update_demande_def)

lemma fetchDemandes_validator:
  assumes "\<not> fetch_error e" and "auth_uid w \<noteq> None" and "policy_update_demande w"
    and "(case user w of None \<Rightarrow> None
          | Some u \<Rightarrow> if u_role u = chauffeur then Some (u_id u) else None) = None"
  shows "demandes (fetchDemandes e w) = newest_first e (tbl_demandes_carburant w)"
  using assms by (simp add: fetchDemandes_def db_select_demandes_def policy_select_validator)

lemma demandes_after_success:
  assumes "\<not> fetch_error e" and "auth_uid w2 \<noteq> None" and "policy_update_demande w2"
    and "user w2 = user w"
    and "determine_next_status (map_option u_role (user w)) st s = Some p"
  shows "demandes (after_success e w w2 i n s c) =
           newest_first e (tbl_demandes_carburant w2)"
proof -
  let ?W = "toast_success
              (if s = approuve then ''Demande approuvee avec succes''
               else ''Demande rejetee avec succes'')
              (rpc_log_action e w2 1 (map_option u_id (user w))
                 (''Validation '' @ statut_text s @ '' - Niveau '' @ nat_text n)
                 (''Demande '' @ i @ '' - '' @ (case c of None \<Rightarrow> [] | Some t \<Rightarrow> t)))"
  have a: "auth_uid ?W = auth_uid w2" and u: "tbl_utilisateurs ?W = tbl_utilisateurs w2"
    and us: "user ?W = user w" and t: "tbl_demandes_carburant ?W = tbl_demandes_carburant w2"
    using assms(4) by (simp_all add: toast_success_def rpc_log_action_tables)
  from a assms(2) have a': "auth_uid ?W \<noteq> None" by simp
  from assms(3) have p: "policy_update_demande ?W"
    unfolding policy_update_demande_def by (simp only: role_in_cong [OF a u])
  from determine_next_status_not_chauffeur [OF assms(5)] us
  have f: "(case user ?W of None \<Rightarrow> None
          | Some u \<Rightarrow> if u_role u = chauffeur then Some (u_id u) else None) = None"
    by simp
  have "demandes (after_success e w w2 i n s c) = demandes (fetchDemandes e ?W)"
    by (simp add: after_success_def)
  also have "\<dots> = newest_first e (tbl_demandes_carburant ?W)"
    by (rule fetchDemandes_validator [OF assms(1) a' p f])
  finally show ?thesis by (simp only: t)
qed

lemma find_Some_set: "find P xs = Some x \<Longrightarrow> x \<in> set xs"
  by (induction xs) (auto split: if_splits)

lemma find_Some_holds: "find P xs = Some x \<Longrightarrow> P x"
  by (induction xs) (auto split: if_splits)

lemma find_in_update_rows:
  assumes "list_ex (\<lambda>dc. d_id dc = i) rows"
  shows "\<exists>r. find (\<lambda>d. d_id d = i) (newest_first e' (update_rows e i st rows)) =
               Some r \<and> d_statut r = st"
proof -
  let ?xs = "newest_first e' (update_rows e i st rows)"
  have s: "set ?xs = set (update_rows e i st rows)" by simp
  from assms have "list_ex (\<lambda>dc. d_id dc = i) (update_rows e i st rows)"
    by (simp add: list_ex_update_rows)
  then have "\<exists>r\<in>set ?xs. d_id r = i" by (simp only: s list_ex_iff)
  then obtain r where r: "find (\<lambda>d. d_id d = i) ?xs = Some r"
    by (cases "find (\<lambda>d. d_id d = i) ?xs") (auto simp only: find_None_iff)
  then have "r \<in> set ?xs" and "d_id r = i" by (rule find_Some_set, rule find_Some_holds)
  then have "d_statut r = st" by (simp only: s update_rows_statut)
  with r show ?thesis by blast
qed

lemma uploadFiles_tables:
  "tbl_demandes_carburant (snd (uploadFiles e w i)) = tbl_demandes_carburant w"
  "tbl_logs (snd (uploadFiles e w i)) = tbl_logs w"
  "tbl_validations (snd (uploadFiles e w i)) = tbl_validations w"
  "toasts (snd (uploadFiles e w i)) = toasts w"
  "location (snd (uploadFiles e w i)) = location w"
  by (simp_all add: uploadFiles_def Let_def)

lemma uploadFiles_fails:
  "list_ex (upload_error e) (uploadedFiles w) \<Longrightarrow> fst (uploadFiles e w i) = Some Request_failed"
  by (simp add: uploadFiles_def Let_def)

lemma db_insert_demande_Inr:
  assumes "db_insert_demande e w data uid st = Inr (row, w1)"
  shows "w1 = w\<lparr>tbl_demandes_carburant := tbl_demandes_carburant w @ [row]\<rparr> \<and>
         d_statut row = st \<and> d_id_utilisateur row = uid \<and>
         d_id_vehicule row = id_vehicule data \<and> d_date_demande row = now e \<and>
         d_date_modification row = now e \<and> d_id row = uuid_generate_v4 e 0 \<and>
         policy_insert_demande w row"
  using assms
  by (auto simp: db_insert_demande_def Let_def split: if_splits option.splits)

lemma db_insert_demande_accepts:
  assumes "\<not> insert_error e" and "km_compteur data = Some km"
    and "quantite_demandee data = Some q"
    and "auth_uid w = Some uid" and "role_in w [chauffeur]"
    and "list_ex (\<lambda>v. v_id v = id_vehicule data) (tbl_vehicules w)"
  shows "\<exists>row. db_insert_demande e w data uid st =
           Inr (row, w\<lparr>tbl_demandes_carburant := tbl_demandes_carburant w @ [row]\<rparr>)"
  using assms by (simp add: db_insert_demande_def Let_def policy_insert_demande_def)

lemma db_insert_demande_refuses:
  "\<not> role_in w [chauffeur] \<Longrightarrow> \<exists>err. db_insert_demande e w data uid st = Inl err"
  by (simp add: db_insert_demande_def Let_def policy_insert_demande_def split: option.splits)

lemma os_no_user: "user w = None \<Longrightarrow> onSubmit e w data = (Returned, w)"
  by (simp add: onSubmit_def)

lemma os_insert_error:
  "user w = Some u \<Longrightarrow> db_insert_demande e w data (u_id u) en_attente = Inl err \<Longrightarrow>
   onSubmit e w data =
     (Erreur, (toast_error ''Erreur lors de la creation de la demande'' w)
                \<lparr>loading_form := False\<rparr>)"
  by (simp add: onSubmit_def)

lemma os_upload_error:
  "user w = Some u \<Longrightarrow> db_insert_demande e w data (u_id u) en_attente = Inr (demande, w1) \<Longrightarrow>
   uploadedFiles w1 \<noteq> [] \<Longrightarrow> fst (uploadFiles e w1 (d_id demande)) = Some err \<Longrightarrow>
   onSubmit e w data =
     (Erreur, (toast_error ''Erreur lors de la creation de la demande''
                 (snd (uploadFiles e w1 (d_id demande))))
                \<lparr>loading_form := False\<rparr>)"
  by (cases "uploadFiles e w1 (d_id demande)") (simp add: onSubmit_def)

lemma os_inserted:
  assumes "user w = Some u"
    and "db_insert_demande e w data (u_id u) en_attente = Inr (demande, w1)"
  shows "tbl_demandes_carburant (snd (onSubmit e w data)) = tbl_demandes_carburant w1"
proof (cases "uploadedFiles w1 \<noteq> []")
  case True
  obtain r w2 where u: "uploadFiles e w1 (d_id demande) = (r, w2)"
    by (cases "uploadFiles e w1 (d_id demande)")
  from uploadFiles_tables(1) [of e w1 "d_id demande"] u
  have t: "tbl_demandes_carburant w2 = tbl_demandes_carburant w1" by simp
  from assms True u t show ?thesis
    by (cases r) (simp_all add: onSubmit_def toast_error_def toast_success_def
          rpc_log_action_def)
next
  case False
  with assms show ?thesis
    by (simp add: onSubmit_def toast_success_def rpc_log_action_def)
qed

lemma onSubmit_rows:
  "\<exists>rows. tbl_demandes_carburant (snd (onSubmit e w data)) = tbl_demandes_carburant w @ rows \<and>
          list_all (\<lambda>r. d_statut r = en_attente) rows"
proof (cases "user w")
  case None
  then show ?thesis by (simp add: os_no_user)
next
  case (Some u)
  show ?thesis
  proof (cases "db_insert_demande e w data (u_id u) en_attente")
    case (Inl err)
    then show ?thesis by (simp add: os_insert_error [OF Some] toast_error_def)
  next
    case (Inr p)
    obtain row w1 where p: "p = (row, w1)" by (cases p)
    from db_insert_demande_Inr [OF Inr [unfolded p]]
    have "tbl_demandes_carburant w1 = tbl_demandes_carburant w @ [row]"
      and "d_statut row = en_attente"
      by simp_all
    with os_inserted [OF Some Inr [unfolded p]] show ?thesis by simp
  qed
qed

lemma handleSubmit_rows:
  "\<exists>rows. tbl_demandes_carburant (snd (handleSubmit e w data)) =
            tbl_demandes_carburant w @ rows \<and>
          list_all (\<lambda>r. d_statut r = en_attente) rows"
proof (cases "validate_form data = []")
  case True
  from onSubmit_rows [of e "w\<lparr>errors := []\<rparr>" data] True show ?thesis
    by (simp add: handleSubmit_def)
next
  case False
  then show ?thesis by (simp add: handleSubmit_def)
qed

lemma validate_form_ok:
  "validate_form data = [] \<longleftrightarrow>
     id_vehicule data \<noteq> [] \<and> (\<exists>km. km_compteur data = Some km \<and> 0 \<le> km) \<and>
     (\<exists>q. quantite_demandee data = Some q \<and> 1 / 100 \<le> q) \<and>
     site data \<noteq> [] \<and> mission data \<noteq> [] \<and> raison data \<noteq> []"
  by (cases "km_compteur data"; cases "quantite_demandee data")
     (auto simp: validate_form_def required_def)

lemma fetchVehicules_active:
  "\<not> vehicules_error e \<Longrightarrow> list_all v_actif (vehicules (fetchVehicules e w))"
  by (simp add: fetchVehicules_def list_all_iff)

lemma update_rows_forward:
  assumes "\<forall>r\<in>set rows. d_id r = i \<longrightarrow> moves_forward (d_statut r) st"
  shows "list_all2 (\<lambda>old new. d_id new = d_id old \<and>
            (d_statut new = d_statut old \<or> moves_forward (d_statut old) (d_statut new)))
          rows (update_rows e i st rows)"
  using assms by (induction rows) (simp_all add: update_rows_def)

lemma rows_unchanged_forward:
  "list_all2 (\<lambda>old new. d_id new = d_id old \<and>
            (d_statut new = d_statut old \<or> moves_forward (d_statut old) (d_statut new)))
          rows rows"
  by (simp add: list_all2_same)

lemma hv_rows:
  assumes "find (\<lambda>d. d_id d = demandeId) (demandes w) = Some demande"
    and "determine_next_status (map_option u_role (user w)) (d_statut demande) statut =
           Some (newStatut, niveau)"
    and "handleValidation e w demandeId statut commentaire = (x, w')"
  shows "tbl_demandes_carburant w' = tbl_demandes_carburant w \<or>
         tbl_demandes_carburant w' =
           update_rows e demandeId newStatut (tbl_demandes_carburant w)"
proof -
  from hv_authorized_exit [OF assms(1,2), of e commentaire] assms(3)
  have "x = Succes \<or> x = Erreur" by simp
  then show ?thesis
  proof
    assume x: "x = Succes"
    from hv_Succes_inv [OF assms(3) [unfolded x]] assms(1,2) show ?thesis
      by (auto simp: after_success_tables)
  next
    assume x: "x = Erreur"
    from hv_Erreur_inv [OF assms(3) [unfolded x]] assms(1,2) show ?thesis
      by (auto simp: toast_error_def split: if_splits)
  qed
qed

lemma fetchDemandes_store: "store_of (fetchDemandes e w) = store_of w"
  by (simp add: store_of_def fetchDemandes_tables)

lemma policy_select_own:
  "auth_uid w = Some uid \<Longrightarrow> d_id_utilisateur d = uid \<Longrightarrow> policy_select_demande w d"
  by (simp add: policy_select_demande_def)

lemma policy_select_role:
  "auth_uid w = Some uid \<Longrightarrow> db_role w = Some r \<Longrightarrow> r \<noteq> chauffeur \<Longrightarrow>
     policy_select_demande w d"
  by (cases r) (simp_all add: policy_select_demande_def role_in_def)

lemma filter_own:
  assumes "auth_uid w = Some uid"
  shows "filter (\<lambda>d. policy_select_demande w d \<and> d_id_utilisateur d = uid) rows =
         filter (\<lambda>d. d_id_utilisateur d = uid) rows"
  by (rule filter_cong) (auto simp: policy_select_own [OF assms])

lemma filter_all:
  assumes "auth_uid w = Some uid" and "db_role w = Some r" and "r \<noteq> chauffeur"
  shows "filter (\<lambda>d. policy_select_demande w d \<and> True) rows = rows"
  by (simp add: policy_select_role [OF assms])

lemma update_rows_rel:
  assumes "\<forall>r\<in>set rows. d_id r = i \<longrightarrow> R (d_statut r) st"
  shows "list_all2 (\<lambda>old new. d_id new = d_id old \<and>
            (d_statut new = d_statut old \<or> R (d_statut old) (d_statut new)))
          rows (update_rows e i st rows)"
  using assms by (induction rows) (simp_all add: update_rows_def)

lemma hv_Erreur_rows:
  assumes "find (\<lambda>d. d_id d = demandeId) (demandes w) = Some demande"
    and "determine_next_status (map_option u_role (user w)) (d_statut demande) statut =
           Some (newStatut, niveau)"
    and "handleValidation e w demandeId statut commentaire = (Erreur, w')"
  shows "tbl_demandes_carburant w' =
           (if \<not> update_error e \<and> policy_update_demande w
            then update_rows e demandeId newStatut (tbl_demandes_carburant w)
            else tbl_demandes_carburant w)"
  using hv_Erreur_inv [OF assms(3)] assms(1,2)
  by (auto simp: toast_error_def split: if_splits)

lemma hv_Succes_rows:
  assumes "find (\<lambda>d. d_id d = demandeId) (demandes w) = Some demande"
    and "determine_next_status (map_option u_role (user w)) (d_statut demande) statut =
           Some (newStatut, niveau)"
    and "handleValidation e w demandeId statut commentaire = (Succes, w')"
  shows "tbl_demandes_carburant w' =
           update_rows e demandeId newStatut (tbl_demandes_carburant w) \<and>
         tbl_validations w' = tbl_validations w @
           [new_validation e w demandeId niveau statut commentaire] \<and>
         list_ex (\<lambda>dc. d_id dc = demandeId) (tbl_demandes_carburant w)"
  using hv_Succes_inv [OF assms(3)] assms(1,2)
  by (auto simp: after_success_tables)

lemma table_entry_step:
  assumes "table_entry w demande = Some (a, rj, l)"
  shows "\<exists>u. user w = Some u \<and>
           transition_table (d_statut demande) (u_role u) = Some (a, rj, l) \<and>
           table_step (u_role u) statut (d_statut demande)
             (if statut = approuve then a else rj)"
  using assms by (cases "user w") (simp_all add: table_entry_def table_step_def)

lemma mset_newest_first: "mset (newest_first e rows) = mset rows"
  by (simp add: newest_first_def)

lemma sorted_newest_first: "sorted (rev (map d_date_demande (newest_first e rows)))"
  by (simp add: newest_first_def rev_map)

lemma fetchDemandes_list:
  "\<not> fetch_error e \<Longrightarrow>
   demandes (fetchDemandes e w) =
     newest_first e
       (filter (\<lambda>d. policy_select_demande w d \<and>
                  (case (case user w of
                           None \<Rightarrow> None
                         | Some u \<Rightarrow> if u_role u = chauffeur then Some (u_id u) else None) of
                     None \<Rightarrow> True
                   | Some uid \<Rightarrow> d_id_utilisateur d = uid))
          (tbl_demandes_carburant w))"
  by (simp add: fetchDemandes_def db_select_demandes_def)

lemma policy_select_chauffeur:
  "db_role w = Some chauffeur \<Longrightarrow> policy_select_demande w d \<Longrightarrow>
     auth_uid w = Some (d_id_utilisateur d)"
  by (simp add: policy_select_demande_def role_in_def)

section \<open>The claims\<close>

subsection \<open>The decision follows the transition table\<close>

text \<open>
  Claim C1, as the code has it. \<^verbatim>\<open>handleValidation\<close> looks the request up in the
  page's list and decides on the status listed there and the caller's role. A request
  that is not in the list makes the call return with nothing changed, whatever is
  stored. For a listed request, where the transition table has no row for the listed
  status and the role, the call is refused with the message "Action non autorisee"
  and nothing but the message changes. Where the table has a row, the call either
  succeeds, and then every stored request with that identifier gets the row's status
  for the outcome chosen (the approved status on \<open>approuve\<close>, \<open>rejete\<close> on
  \<open>rejete_v\<close>) and one validation of the row's level is added; or it ends in the error
  branch, and then the stored statuses are updated to that same status when the update
  had gone through and are as before otherwise. When moreover the stored rows of the
  request have the listed status, every stored status is left as it is or changed by a
  row of the table for the caller's role and the outcome.
\<close>

theorem handleValidation_follows_transition_table:
  assumes "handleValidation e w demandeId statut commentaire = (x, w')"
  shows "case find (\<lambda>d. d_id d = demandeId) (demandes w) of
           None \<Rightarrow> x = Returned \<and> w' = w
         | Some demande \<Rightarrow>
             (case table_entry w demande of
                None \<Rightarrow>
                  x = Non_autorisee \<and> w' = toast_error ''Action non autorisee'' w \<and>
                  tbl_demandes_carburant w' = tbl_demandes_carburant w
              | Some (on_approve, on_reject, level) \<Rightarrow>
                  ((x = Succes \<and>
                    tbl_demandes_carburant w' =
                      update_rows e demandeId
                        (if statut = approuve then on_approve else on_reject)
                        (tbl_demandes_carburant w) \<and>
                    map val_niveau_validation (tbl_validations w') =
                      map val_niveau_validation (tbl_validations w) @ [level]) \<or>
                   (x = Erreur \<and>
                    tbl_demandes_carburant w' =
                      (if \<not> update_error e \<and> policy_update_demande w
                       then update_rows e demandeId
                              (if statut = approuve then on_approve else on_reject)
                              (tbl_demandes_carburant w)
                       else tbl_demandes_carburant w))) \<and>
                  ((\<forall>r\<in>set (tbl_demandes_carburant w).
                       d_id r = demandeId \<longrightarrow> d_statut r = d_statut demande) \<longrightarrow>
                   list_all2 (\<lambda>old new. d_id new = d_id old \<and>
                       (d_statut new = d_statut old \<or>
                        (\<exists>u. user w = Some u \<and>
                           table_step (u_role u) statut (d_statut old) (d_statut new))))
                     (tbl_demandes_carburant w) (tbl_demandes_carburant w')))"
proof (cases "find (\<lambda>d. d_id d = demandeId) (demandes w)")
  case None
  from hv_not_found [OF None, of e statut commentaire] assms None show ?thesis by simp
next
  case f: (Some demande)
  show ?thesis
  proof (cases "table_entry w demande")
    case None
    then have "determine_next_status (map_option u_role (user w)) (d_statut demande) statut = None"
      by (simp add: determine_next_status_entry)
    then have "handleValidation e w demandeId statut commentaire =
                 (Non_autorisee, toast_error ''Action non autorisee'' w)"
      by (rule hv_unauthorized [OF f])
    with assms have "x = Non_autorisee" and "w' = toast_error ''Action non autorisee'' w"
      by simp_all
    with f None show ?thesis by (simp add: toast_error_def)
  next
    case (Some t)
    obtain a rj l where t: "t = (a, rj, l)" by (cases t)
    let ?next = "if statut = approuve then a else rj"
    let ?R = "\<lambda>old new. \<exists>u. user w = Some u \<and> table_step (u_role u) statut old new"
    have d: "determine_next_status (map_option u_role (user w)) (d_statut demande) statut =
               Some (?next, l)"
      using Some t by (simp add: determine_next_status_entry)
    have x: "x = Succes \<or> x = Erreur"
      using hv_authorized_exit [OF f d, of e commentaire] assms by simp
    have main: "(x = Succes \<and>
                    tbl_demandes_carburant w' =
                      update_rows e demandeId ?next (tbl_demandes_carburant w) \<and>
                    map val_niveau_validation (tbl_validations w') =
                      map val_niveau_validation (tbl_validations w) @ [l]) \<or>
                   (x = Erreur \<and>
                    tbl_demandes_carburant w' =
                      (if \<not> update_error e \<and> policy_update_demande w
                       then update_rows e demandeId ?next (tbl_demandes_carburant w)
                       else tbl_demandes_carburant w))"
    proof (cases "x = Succes")
      case True
      from hv_Succes_rows [OF f d assms [unfolded True]] True show ?thesis by simp
    next
      case False
      with x have e: "x = Erreur" by simp
      from hv_Erreur_rows [OF f d assms [unfolded e]] e show ?thesis by simp
    qed
    have rel: "list_all2 (\<lambda>old new. d_id new = d_id old \<and>
                       (d_statut new = d_statut old \<or> ?R (d_statut old) (d_statut new)))
                     (tbl_demandes_carburant w) (tbl_demandes_carburant w')"
      if c: "\<forall>r\<in>set (tbl_demandes_carburant w).
                d_id r = demandeId \<longrightarrow> d_statut r = d_statut demande"
    proof -
      from table_entry_step [OF Some [unfolded t], of statut]
      have "?R (d_statut demande) ?next" by blast
      with c have "\<forall>r\<in>set (tbl_demandes_carburant w).
                     d_id r = demandeId \<longrightarrow> ?R (d_statut r) ?next"
        by simp
      then have u: "list_all2 (\<lambda>old new. d_id new = d_id old \<and>
                       (d_statut new = d_statut old \<or> ?R (d_statut old) (d_statut new)))
                     (tbl_demandes_carburant w)
                     (update_rows e demandeId ?next (tbl_demandes_carburant w))"
        by (rule update_rows_rel)
      from hv_rows [OF f d assms] show ?thesis
      proof
        assume "tbl_demandes_carburant w' = tbl_demandes_carburant w"
        then show ?thesis by (simp add: list_all2_same)
      next
        assume "tbl_demandes_carburant w' =
                  update_rows e demandeId ?next (tbl_demandes_carburant w)"
        with u show ?thesis by simp
      qed
    qed
    from main rel f Some t show ?thesis by simp
  qed
qed

theorem handleValidation_follows_transition_table_witness:
  "find (\<lambda>d. d_id d = ''R1'') (demandes (page_of ''S1'' superviseur)) =
     Some (mk_demande ''R1'' ''D1'' en_attente 10) \<and>
   table_entry (page_of ''S1'' superviseur) (mk_demande ''R1'' ''D1'' en_attente 10) =
     Some (valide_superviseur, rejete, 1) \<and>
   fst (handleValidation calm (page_of ''S1'' superviseur) ''R1'' rejete_v None) = Succes \<and>
   tbl_demandes_carburant
     (snd (handleValidation calm (page_of ''S1'' superviseur) ''R1'' rejete_v None)) =
     update_rows calm ''R1'' rejete (tbl_demandes_carburant (page_of ''S1'' superviseur)) \<and>
   map val_niveau_validation (tbl_validations
     (snd (handleValidation calm (page_of ''S1'' superviseur) ''R1'' rejete_v None))) =
     map val_niveau_validation (tbl_validations (page_of ''S1'' superviseur)) @ [1] \<and>
   list_all2 (\<lambda>old new. d_id new = d_id old \<and>
       (d_statut new = d_statut old \<or>
        (\<exists>u. user (page_of ''S1'' superviseur) = Some u \<and>
           table_step (u_role u) rejete_v (d_statut old) (d_statut new))))
     (tbl_demandes_carburant (page_of ''S1'' superviseur))
     (tbl_demandes_carburant
        (snd (handleValidation calm (page_of ''S1'' superviseur) ''R1'' rejete_v None)))"
proof -
  let ?w = "page_of ''S1'' superviseur"
  let ?r = "handleValidation calm ?w ''R1'' rejete_v None"
  have f: "find (\<lambda>d. d_id d = ''R1'') (demandes ?w) = Some (mk_demande ''R1'' ''D1'' en_attente 10)"
    by code_simp
  have x: "fst ?r = Succes" by code_simp
  have t: "table_entry ?w (mk_demande ''R1'' ''D1'' en_attente 10) =
             Some (valide_superviseur, rejete, 1)"
    by code_simp
  have c: "\<forall>r\<in>set (tbl_demandes_carburant ?w).
             d_id r = ''R1'' \<longrightarrow> d_statut r = d_statut (mk_demande ''R1'' ''D1'' en_attente 10)"
    by code_simp
  from handleValidation_follows_transition_table [OF exit_to_pair [OF x]] f t x c
  have "tbl_demandes_carburant (snd ?r) =
          update_rows calm ''R1'' rejete (tbl_demandes_carburant ?w) \<and>
        map val_niveau_validation (tbl_validations (snd ?r)) =
          map val_niveau_validation (tbl_validations ?w) @ [1] \<and>
        list_all2 (\<lambda>old new. d_id new = d_id old \<and>
           (d_statut new = d_statut old \<or>
            (\<exists>u. user ?w = Some u \<and>
               table_step (u_role u) rejete_v (d_statut old) (d_statut new))))
         (tbl_demandes_carburant ?w) (tbl_demandes_carburant (snd ?r))"
    by clarsimp
  with f t x show ?thesis by blast
qed

text \<open>
  The claim as stated speaks of the request's current status. On a list that was not
  fetched again after the supervisor's approval, R1 is stored as \<open>valide_superviseur\<close>
  and listed as pending: the supervisor's rejection succeeds and changes the stored
  status, although the table has no row for \<open>valide_superviseur\<close> and a supervisor.
  And a call of driver D1 for R2, which is stored but not in the driver's list, is not
  refused: it returns without a message.
\<close>

theorem stale_list_status_change_outside_table_counterexample:
  "map d_statut (tbl_demandes_carburant (unreloaded_after approuve)) =
     [valide_superviseur, en_attente] \<and>
   map_option u_role (user (unreloaded_after approuve)) = Some superviseur \<and>
   transition_table valide_superviseur superviseur = None \<and>
   fst (handleValidation calm (unreloaded_after approuve) ''R1'' rejete_v None) = Succes \<and>
   map d_statut (tbl_demandes_carburant
     (snd (handleValidation calm (unreloaded_after approuve) ''R1'' rejete_v None))) =
     [rejete, en_attente] \<and>
   map d_id (tbl_demandes_carburant (page_of ''D1'' chauffeur)) = [''R1'', ''R2''] \<and>
   map d_id (demandes (page_of ''D1'' chauffeur)) = [''R1''] \<and>
   transition_table en_attente chauffeur = None \<and>
   fst (handleValidation calm (page_of ''D1'' chauffeur) ''R2'' approuve None) = Returned \<and>
   new_toasts (page_of ''D1'' chauffeur)
     (snd (handleValidation calm (page_of ''D1'' chauffeur) ''R2'' approuve None)) = []"
  by code_simp

subsection \<open>The three writes of a decision\<close>

text \<open>
  Claim C2, as the code has it. The status update, the insert of the validation and
  the log entry are three requests made one after the other, with no transaction
  around them. A call that succeeds has stored the new status and exactly one
  validation, and a log entry unless the log call failed (its result is not read). A
  call that ends in the error branch has written no validation and no log entry, but
  when its status update had gone through (the error came from the insert of the
  validation) the new status stays stored: nothing rolls it back. A call that returns
  early or is refused writes nothing.
\<close>

theorem handleValidation_writes_in_sequence:
  assumes "handleValidation e w demandeId statut commentaire = (x, w')"
  shows "(x = Succes \<and>
          (\<exists>demande newStatut niveau v.
             find (\<lambda>d. d_id d = demandeId) (demandes w) = Some demande \<and>
             determine_next_status (map_option u_role (user w)) (d_statut demande) statut =
               Some (newStatut, niveau) \<and>
             list_ex (\<lambda>dc. d_id dc = demandeId) (tbl_demandes_carburant w) \<and>
             tbl_demandes_carburant w' =
               update_rows e demandeId newStatut (tbl_demandes_carburant w) \<and>
             tbl_validations w' = tbl_validations w @ [v] \<and>
             (if log_error e then tbl_logs w' = tbl_logs w
              else \<exists>l. tbl_logs w' = tbl_logs w @ [l]))) \<or>
         (x = Erreur \<and>
          (\<exists>demande newStatut niveau.
             find (\<lambda>d. d_id d = demandeId) (demandes w) = Some demande \<and>
             determine_next_status (map_option u_role (user w)) (d_statut demande) statut =
               Some (newStatut, niveau) \<and>
             tbl_demandes_carburant w' =
               (if \<not> update_error e \<and> policy_update_demande w
                then update_rows e demandeId newStatut (tbl_demandes_carburant w)
                else tbl_demandes_carburant w)) \<and>
          tbl_validations w' = tbl_validations w \<and> tbl_logs w' = tbl_logs w) \<or>
         ((x = Returned \<or> x = Non_autorisee) \<and>
          tbl_demandes_carburant w' = tbl_demandes_carburant w \<and>
          tbl_validations w' = tbl_validations w \<and> tbl_logs w' = tbl_logs w)"
proof -
  consider (ok) "x = Succes" | (err) "x = Erreur" | (other) "x \<noteq> Succes" "x \<noteq> Erreur"
    by blast
  then show ?thesis
  proof cases
    case ok
    from hv_Succes_inv [OF assms [unfolded ok]] hv_Succes_logs [OF assms [unfolded ok]] ok
    show ?thesis by (auto simp: after_success_tables)
  next
    case err
    from hv_Erreur_inv [OF assms [unfolded err]] obtain demande newStatut niveau where
      f: "find (\<lambda>d. d_id d = demandeId) (demandes w) = Some demande"
      and d: "determine_next_status (map_option u_role (user w)) (d_statut demande) statut =
             Some (newStatut, niveau)"
      and w': "if update_error e then w' = toast_error ''Erreur lors de la validation'' w
            else w' = toast_error ''Erreur lors de la validation''
                   (if policy_update_demande w
                    then w\<lparr>tbl_demandes_carburant :=
                           update_rows e demandeId newStatut (tbl_demandes_carburant w)\<rparr>
                    else w)"
      by blast
    from w' have "tbl_demandes_carburant w' =
               (if \<not> update_error e \<and> policy_update_demande w
                then update_rows e demandeId newStatut (tbl_demandes_carburant w)
                else tbl_demandes_carburant w)"
      and "tbl_validations w' = tbl_validations w" and "tbl_logs w' = tbl_logs w"
      by (auto simp: toast_error_def split: if_splits)
    with err f d show ?thesis by blast
  next
    case other
    from hv_other_inv [OF assms other] hv_exit_cases [of e w demandeId statut commentaire]
      assms other
    show ?thesis by (cases x) (auto simp: toast_error_def)
  qed
qed

theorem handleValidation_writes_in_sequence_witness:
  "fst (handleValidation calm (page_of ''F1'' pompiste) ''R1'' approuve None) = Non_autorisee \<and>
   store_of (snd (handleValidation calm (page_of ''F1'' pompiste) ''R1'' approuve None)) =
     store_of (page_of ''F1'' pompiste) \<and>
   fst (handleValidation calm (page_of ''S1'' superviseur) ''R2'' approuve None) = Succes \<and>
   (\<exists>newStatut v l.
      tbl_demandes_carburant
        (snd (handleValidation calm (page_of ''S1'' superviseur) ''R2'' approuve None)) =
        update_rows calm ''R2'' newStatut (tbl_demandes_carburant (page_of ''S1'' superviseur)) \<and>
      tbl_validations
        (snd (handleValidation calm (page_of ''S1'' superviseur) ''R2'' approuve None)) =
        tbl_validations (page_of ''S1'' superviseur) @ [v] \<and>
      tbl_logs (snd (handleValidation calm (page_of ''S1'' superviseur) ''R2'' approuve None)) =
        tbl_logs (page_of ''S1'' superviseur) @ [l])"
proof -
  let ?r = "handleValidation calm (page_of ''S1'' superviseur) ''R2'' approuve None"
  have x: "fst ?r = Succes" by code_simp
  have l: "\<not> log_error calm" by code_simp
  have n: "fst (handleValidation calm (page_of ''F1'' pompiste) ''R1'' approuve None) =
             Non_autorisee"
    "store_of (snd (handleValidation calm (page_of ''F1'' pompiste) ''R1'' approuve None)) =
     store_of (page_of ''F1'' pompiste)"
    by code_simp+
  from handleValidation_writes_in_sequence [OF exit_to_pair [OF x]] l
  have "\<exists>newStatut v l.
      tbl_demandes_carburant (snd ?r) =
        update_rows calm ''R2'' newStatut (tbl_demandes_carburant (page_of ''S1'' superviseur)) \<and>
      tbl_validations (snd ?r) = tbl_validations (page_of ''S1'' superviseur) @ [v] \<and>
      tbl_logs (snd ?r) = tbl_logs (page_of ''S1'' superviseur) @ [l]"
    by auto
  with x n show ?thesis by simp
qed

text \<open>
  The claim as stated makes a changed status without a validation unreachable. When
  the insert of the validation fails, the supervisor's approval of R1 leaves R1 stored
  as \<open>valide_superviseur\<close> with no validation and no log entry.
\<close>

theorem status_changed_without_validation_counterexample:
  "fst (handleValidation (calm\<lparr>validation_error := True\<rparr>) (page_of ''S1'' superviseur)
          ''R1'' approuve None) = Erreur \<and>
   map d_statut (tbl_demandes_carburant (page_of ''S1'' superviseur)) =
     [en_attente, en_attente] \<and>
   map d_statut (tbl_demandes_carburant
     (snd (handleValidation (calm\<lparr>validation_error := True\<rparr>) (page_of ''S1'' superviseur)
             ''R1'' approuve None))) = [valide_superviseur, en_attente] \<and>
   tbl_validations
     (snd (handleValidation (calm\<lparr>validation_error := True\<rparr>) (page_of ''S1'' superviseur)
             ''R1'' approuve None)) = [] \<and>
   tbl_logs
     (snd (handleValidation (calm\<lparr>validation_error := True\<rparr>) (page_of ''S1'' superviseur)
             ''R1'' approuve None)) = []"
  by code_simp

subsection \<open>One validation record per successful decision\<close>

text \<open>
  Claim C3, as the code has it. A successful \<^verbatim>\<open>handleValidation\<close> call appends
  exactly one row to \<^verbatim>\<open>validations\<close>: it carries the request's identifier, the
  caller, the outcome and the comment, and its level is the level of the transition
  table's row for the status in the page's list and the caller's role (1 for the
  supervisor's stage, 2 for the fueler's, 3 for the director's). The request is
  stored; when its stored rows have the listed status, that level is the level of the
  table's row for the stored status.
\<close>

theorem handleValidation_inserts_one_validation:
  assumes "handleValidation e w demandeId statut commentaire = (Succes, w')"
  shows "\<exists>demande u on_approve on_reject level.
           find (\<lambda>d. d_id d = demandeId) (demandes w) = Some demande \<and>
           user w = Some u \<and>
           transition_table (d_statut demande) (u_role u) =
             Some (on_approve, on_reject, level) \<and>
           tbl_validations w' = tbl_validations w @
             [\<lparr>val_id = uuid_generate_v4 e 0, val_id_demande = demandeId,
               val_valide_par = Some (u_id u), val_niveau_validation = level,
               val_statut_validation = statut, val_commentaire = commentaire,
               val_date_validation = now e\<rparr>] \<and>
           list_ex (\<lambda>r. d_id r = demandeId) (tbl_demandes_carburant w) \<and>
           ((\<forall>r\<in>set (tbl_demandes_carburant w).
                d_id r = demandeId \<longrightarrow> d_statut r = d_statut demande) \<longrightarrow>
            (\<forall>r\<in>set (tbl_demandes_carburant w).
                d_id r = demandeId \<longrightarrow>
                transition_table (d_statut r) (u_role u) =
                  Some (on_approve, on_reject, level)))"
proof -
  from hv_Succes_inv [OF assms] obtain demande :: DemandeCarburant and newStatut niveau where
    f: "find (\<lambda>d. d_id d = demandeId) (demandes w) = Some demande"
    and d: "determine_next_status (map_option u_role (user w)) (d_statut demande) statut =
             Some (newStatut, niveau)"
    by blast
  from hv_Succes_rows [OF f d assms]
  have v: "tbl_validations w' = tbl_validations w @
              [new_validation e w demandeId niveau statut commentaire]"
    and fk: "list_ex (\<lambda>dc. d_id dc = demandeId) (tbl_demandes_carburant w)"
    by simp_all
  from d obtain a rj where te: "table_entry w demande = Some (a, rj, niveau)"
    by (auto simp: determine_next_status_entry)
  from table_entry_step [OF te, of statut] obtain u where
    u: "user w = Some u"
    and t: "transition_table (d_statut demande) (u_role u) = Some (a, rj, niveau)"
    by blast
  have c: "\<forall>r\<in>set (tbl_demandes_carburant w).
             d_id r = demandeId \<longrightarrow> transition_table (d_statut r) (u_role u) = Some (a, rj, niveau)"
    if "\<forall>r\<in>set (tbl_demandes_carburant w).
                d_id r = demandeId \<longrightarrow> d_statut r = d_statut demande"
    using that t by auto
  from v u have "tbl_validations w' = tbl_validations w @
             [\<lparr>val_id = uuid_generate_v4 e 0, val_id_demande = demandeId,
               val_valide_par = Some (u_id u), val_niveau_validation = niveau,
               val_statut_validation = statut, val_commentaire = commentaire,
               val_date_validation = now e\<rparr>]"
    by (simp add: new_validation_def)
  with f u t fk c show ?thesis by blast
qed

theorem handleValidation_inserts_one_validation_witness:
  "\<exists>demande u on_approve on_reject level.
     find (\<lambda>d. d_id d = ''R1'') (demandes (page_of ''S1'' superviseur)) = Some demande \<and>
     user (page_of ''S1'' superviseur) = Some u \<and>
     transition_table (d_statut demande) (u_role u) = Some (on_approve, on_reject, level) \<and>
     tbl_validations (snd (handleValidation calm (page_of ''S1'' superviseur) ''R1'' approuve
        (Some ''ok''))) =
       tbl_validations (page_of ''S1'' superviseur) @
         [\<lparr>val_id = uuid_generate_v4 calm 0, val_id_demande = ''R1'',
           val_valide_par = Some (u_id u),
           val_niveau_validation = level, val_statut_validation = approuve,
           val_commentaire = Some ''ok'', val_date_validation = now calm\<rparr>] \<and>
     list_ex (\<lambda>r. d_id r = ''R1'') (tbl_demandes_carburant (page_of ''S1'' superviseur)) \<and>
     d_statut demande = en_attente \<and> level = 1 \<and>
     list_all (\<lambda>r. d_id r \<noteq> ''R1'' \<or>
         transition_table (d_statut r) (u_role u) = Some (on_approve, on_reject, level))
       (tbl_demandes_carburant (page_of ''S1'' superviseur))"
proof -
  let ?w = "page_of ''S1'' superviseur"
  let ?r = "handleValidation calm ?w ''R1'' approuve (Some ''ok'')"
  have x: "fst ?r = Succes" by code_simp
  have f: "find (\<lambda>d. d_id d = ''R1'') (demandes ?w) = Some (mk_demande ''R1'' ''D1'' en_attente 10)"
    by code_simp
  have us: "user ?w = Some (mk_user ''S1'' superviseur)" by code_simp
  have c: "\<forall>r\<in>set (tbl_demandes_carburant ?w).
             d_id r = ''R1'' \<longrightarrow> d_statut r = d_statut (mk_demande ''R1'' ''D1'' en_attente 10)"
    by code_simp
  from handleValidation_inserts_one_validation [OF exit_to_pair [OF x]] obtain demande u a rj level where
    1: "find (\<lambda>d. d_id d = ''R1'') (demandes ?w) = Some demande"
    and 2: "user ?w = Some u"
    and 3: "transition_table (d_statut demande) (u_role u) = Some (a, rj, level)"
    and 4: "tbl_validations (snd ?r) = tbl_validations ?w @
         [\<lparr>val_id = uuid_generate_v4 calm 0, val_id_demande = ''R1'',
           val_valide_par = Some (u_id u),
           val_niveau_validation = level, val_statut_validation = approuve,
           val_commentaire = Some ''ok'', val_date_validation = now calm\<rparr>]"
    and 5: "list_ex (\<lambda>r. d_id r = ''R1'') (tbl_demandes_carburant ?w)"
    and 6: "(\<forall>r\<in>set (tbl_demandes_carburant ?w).
                d_id r = ''R1'' \<longrightarrow> d_statut r = d_statut demande) \<longrightarrow>
            (\<forall>r\<in>set (tbl_demandes_carburant ?w).
                d_id r = ''R1'' \<longrightarrow>
                transition_table (d_statut r) (u_role u) = Some (a, rj, level))"
    by blast
  from 1 f have d: "demande = mk_demande ''R1'' ''D1'' en_attente 10" by simp
  from 2 us have u: "u = mk_user ''S1'' superviseur" by simp
  have st: "d_statut demande = en_attente" unfolding d by code_simp
  from 3 have "level = 1" unfolding st u by (simp add: mk_user_def)
  moreover from 6 c d
  have "list_all (\<lambda>r. d_id r \<noteq> ''R1'' \<or>
         transition_table (d_statut r) (u_role u) = Some (a, rj, level))
       (tbl_demandes_carburant ?w)"
    by (auto simp: list_all_iff)
  ultimately show ?thesis using 1 2 3 4 5 st by blast
qed

text \<open>
  The claim as stated takes the level from the request's current status. On a list
  that was not fetched again after the supervisor's rejection, R1 is stored as
  \<open>rejete\<close>, for which the table has no row; the supervisor's second rejection
  succeeds and stores a second validation of level 1.
\<close>

theorem validation_level_for_stale_status_counterexample:
  "map d_statut (tbl_demandes_carburant (unreloaded_after rejete_v)) = [rejete, en_attente] \<and>
   map_option u_role (user (unreloaded_after rejete_v)) = Some superviseur \<and>
   transition_table rejete superviseur = None \<and>
   fst (handleValidation calm (unreloaded_after rejete_v) ''R1'' rejete_v None) = Succes \<and>
   map (\<lambda>v. (val_id_demande v, val_niveau_validation v))
     (tbl_validations (unreloaded_after rejete_v)) = [(''R1'', 1)] \<and>
   map (\<lambda>v. (val_id_demande v, val_niveau_validation v))
     (tbl_validations
        (snd (handleValidation calm (unreloaded_after rejete_v) ''R1'' rejete_v None))) =
     [(''R1'', 1), (''R1'', 1)]"
  by code_simp

subsection \<open>The same decision, a second time\<close>

text \<open>
  Claim C4, as the code has it. When a call succeeded and the list was fetched again
  (the fetch at the end of the call did not fail), a second call with the same request,
  caller and outcome is refused with the message "Action non autorisee", the only
  refusal the handler has, and it writes nothing: no second validation, no status.
\<close>

theorem repeated_decision_refused_after_reload:
  assumes "handleValidation e1 w demandeId statut commentaire = (Succes, w1)"
    and "\<not> fetch_error e1"
  shows "handleValidation e2 w1 demandeId statut commentaire =
           (Non_autorisee, toast_error ''Action non autorisee'' w1) \<and>
         tbl_validations (snd (handleValidation e2 w1 demandeId statut commentaire)) =
           tbl_validations w1 \<and>
         tbl_demandes_carburant (snd (handleValidation e2 w1 demandeId statut commentaire)) =
           tbl_demandes_carburant w1"
proof -
  from hv_Succes_inv [OF assms(1)] obtain demande :: DemandeCarburant and newStatut niveau where
    d: "determine_next_status (map_option u_role (user w)) (d_statut demande) statut =
          Some (newStatut, niveau)"
    and pol: "policy_update_demande w" and au: "auth_uid w \<noteq> None"
    and fk: "list_ex (\<lambda>dc. d_id dc = demandeId) (tbl_demandes_carburant w)"
    and w1: "w1 = after_success e1 w
                  (w\<lparr>tbl_demandes_carburant :=
                       update_rows e1 demandeId newStatut (tbl_demandes_carburant w),
                     tbl_validations := tbl_validations w @
                       [new_validation e1 w demandeId niveau statut commentaire]\<rparr>)
                  demandeId niveau statut commentaire"
    by blast
  let ?w2 = "w\<lparr>tbl_demandes_carburant :=
                       update_rows e1 demandeId newStatut (tbl_demandes_carburant w),
                     tbl_validations := tbl_validations w @
                       [new_validation e1 w demandeId niveau statut commentaire]\<rparr>"
  have "role_in ?w2 [superviseur, directeur, admin, pompiste] =
          role_in w [superviseur, directeur, admin, pompiste]"
    by (rule role_in_cong) simp_all
  with pol have p2: "policy_update_demande ?w2"
    by (simp only: policy_update_demande_def)
  have a2: "auth_uid ?w2 \<noteq> None" using au by simp
  have u2: "user ?w2 = user w" by simp
  have "demandes w1 = newest_first e1 (tbl_demandes_carburant ?w2)"
    unfolding w1 by (rule demandes_after_success [OF assms(2) a2 p2 u2 d])
  also have "tbl_demandes_carburant ?w2 =
               update_rows e1 demandeId newStatut (tbl_demandes_carburant w)"
    by simp
  finally have l: "demandes w1 =
      newest_first e1 (update_rows e1 demandeId newStatut (tbl_demandes_carburant w))" .
  from find_in_update_rows [OF fk, where e' = e1 and e = e1 and st = newStatut] obtain r where
    "find (\<lambda>d. d_id d = demandeId)
       (newest_first e1
          (update_rows e1 demandeId newStatut (tbl_demandes_carburant w))) = Some r"
    and s: "d_statut r = newStatut"
    by blast
  then have f: "find (\<lambda>d. d_id d = demandeId) (demandes w1) = Some r"
    by (simp only: l)
  have us: "user w1 = user w" unfolding w1 by (simp add: after_success_tables)
  have n: "determine_next_status (map_option u_role (user w1)) (d_statut r) statut = None"
    unfolding us s by (rule determine_next_status_once [OF d])
  have "handleValidation e2 w1 demandeId statut commentaire =
           (Non_autorisee, toast_error ''Action non autorisee'' w1)"
    by (rule hv_unauthorized [OF f n])
  then show ?thesis by (simp add: toast_error_def)
qed

theorem repeated_decision_refused_after_reload_witness:
  "fst (handleValidation calm (page_of ''S1'' superviseur) ''R1'' approuve None) = Succes \<and>
   handleValidation calm
     (snd (handleValidation calm (page_of ''S1'' superviseur) ''R1'' approuve None))
     ''R1'' approuve None =
     (Non_autorisee,
      toast_error ''Action non autorisee''
        (snd (handleValidation calm (page_of ''S1'' superviseur) ''R1'' approuve None))) \<and>
   map val_niveau_validation (tbl_validations
     (snd (handleValidation calm
        (snd (handleValidation calm (page_of ''S1'' superviseur) ''R1'' approuve None))
        ''R1'' approuve None))) = [1]"
proof -
  let ?r = "handleValidation calm (page_of ''S1'' superviseur) ''R1'' approuve None"
  have x: "fst ?r = Succes" by code_simp
  have f: "\<not> fetch_error calm" by code_simp
  have v: "map val_niveau_validation (tbl_validations (snd ?r)) = [1]" by code_simp
  from repeated_decision_refused_after_reload [OF exit_to_pair [OF x] f, of calm] x v show ?thesis
    by (simp add: toast_error_def)
qed

text \<open>
  The claim as stated holds for every second call. While the page still shows the old
  list (here the fetch after the first call failed), the second approval of R1 by the
  same supervisor succeeds again and a second validation of level 1 is stored.
\<close>

theorem repeated_decision_duplicates_validation_counterexample:
  "fst (handleValidation (calm\<lparr>fetch_error := True\<rparr>) (page_of ''S1'' superviseur)
          ''R1'' approuve None) = Succes \<and>
   map d_statut (tbl_demandes_carburant (unreloaded_after approuve)) =
     [valide_superviseur, en_attente] \<and>
   fst (handleValidation calm (unreloaded_after approuve) ''R1'' approuve None) = Succes \<and>
   map (\<lambda>v. (val_id_demande v, val_valide_par v, val_niveau_validation v,
              val_statut_validation v))
     (tbl_validations (snd (handleValidation calm (unreloaded_after approuve) ''R1''
        approuve None))) =
     [(''R1'', Some ''S1'', 1, approuve), (''R1'', Some ''S1'', 1, approuve)]"
  by code_simp

subsection \<open>The status moves forward\<close>

text \<open>
  Claim C5, as the code has it. The handler reads the status from the page's list.
  When the stored rows of the request have the status listed there, a call leaves every
  stored request where it is or moves it one step forward in the sequence, or to
  \<open>rejete\<close>; no identifier changes. A call on a request listed as \<open>rejete\<close> or
  \<open>valide_dg\<close> is refused and changes nothing but the messages. Fetching the list
  leaves the stored requests as they are, and submitting the form only appends pending
  requests.
\<close>

theorem decision_on_current_status_moves_forward:
  assumes "find (\<lambda>d. d_id d = demandeId) (demandes w) = Some demande"
    and "handleValidation e w demandeId statut commentaire = (x, w')"
  shows "((\<forall>r\<in>set (tbl_demandes_carburant w).
             d_id r = demandeId \<longrightarrow> d_statut r = d_statut demande) \<longrightarrow>
          list_all2 (\<lambda>old new. d_id new = d_id old \<and>
              (d_statut new = d_statut old \<or> moves_forward (d_statut old) (d_statut new)))
            (tbl_demandes_carburant w) (tbl_demandes_carburant w')) \<and>
         (d_statut demande = rejete \<or> d_statut demande = valide_dg \<longrightarrow>
            x = Non_autorisee \<and> w' = toast_error ''Action non autorisee'' w) \<and>
         tbl_demandes_carburant (fetchDemandes e w) = tbl_demandes_carburant w \<and>
         (\<exists>rows. tbl_demandes_carburant (snd (handleSubmit e w data)) =
                   tbl_demandes_carburant w @ rows \<and>
                 list_all (\<lambda>r. d_statut r = en_attente) rows)"
proof (intro conjI impI)
  assume c: "\<forall>r\<in>set (tbl_demandes_carburant w).
               d_id r = demandeId \<longrightarrow> d_statut r = d_statut demande"
  let ?ok = "\<lambda>rows'. list_all2 (\<lambda>old new. d_id new = d_id old \<and>
              (d_statut new = d_statut old \<or> moves_forward (d_statut old) (d_statut new)))
            (tbl_demandes_carburant w) rows'"
  show "?ok (tbl_demandes_carburant w')"
  proof (cases "determine_next_status (map_option u_role (user w)) (d_statut demande) statut")
    case None
    from hv_unauthorized [OF assms(1) None, of e commentaire] assms(2)
    have "tbl_demandes_carburant w' = tbl_demandes_carburant w"
      by (simp add: toast_error_def)
    then show ?thesis by (simp only: rows_unchanged_forward)
  next
    case (Some p)
    obtain newStatut niveau where p: "p = (newStatut, niveau)" by (cases p)
    from Some p have "moves_forward (d_statut demande) newStatut"
      by (simp add: determine_next_status_forward)
    with c have "\<forall>r\<in>set (tbl_demandes_carburant w).
                   d_id r = demandeId \<longrightarrow> moves_forward (d_statut r) newStatut"
      by simp
    then have u: "?ok (update_rows e demandeId newStatut (tbl_demandes_carburant w))"
      by (rule update_rows_forward)
    from hv_rows [OF assms(1) Some [unfolded p] assms(2)] u show ?thesis
      by (auto simp only: rows_unchanged_forward)
  qed
next
  assume "d_statut demande = rejete \<or> d_statut demande = valide_dg"
  then have "determine_next_status (map_option u_role (user w)) (d_statut demande) statut = None"
    by (rule determine_next_status_terminal)
  from hv_unauthorized [OF assms(1) this, of e commentaire] assms(2)
  show "x = Non_autorisee" and "w' = toast_error ''Action non autorisee'' w"
    by simp_all
next
  show "tbl_demandes_carburant (fetchDemandes e w) = tbl_demandes_carburant w"
    by (rule fetchDemandes_tables)
next
  show "\<exists>rows. tbl_demandes_carburant (snd (handleSubmit e w data)) =
                   tbl_demandes_carburant w @ rows \<and>
                 list_all (\<lambda>r. d_statut r = en_attente) rows"
    by (rule handleSubmit_rows)
qed

theorem decision_on_current_status_moves_forward_witness:
  "find (\<lambda>d. d_id d = ''R1'') (demandes (page_of ''S1'' superviseur)) =
     Some (mk_demande ''R1'' ''D1'' en_attente 10) \<and>
   list_all2 (\<lambda>old new. d_id new = d_id old \<and>
       (d_statut new = d_statut old \<or> moves_forward (d_statut old) (d_statut new)))
     (tbl_demandes_carburant (page_of ''S1'' superviseur))
     (tbl_demandes_carburant
        (snd (handleValidation calm (page_of ''S1'' superviseur) ''R1'' rejete_v None))) \<and>
   map d_statut (tbl_demandes_carburant
        (snd (handleValidation calm (page_of ''S1'' superviseur) ''R1'' rejete_v None))) =
     [rejete, en_attente]"
proof -
  let ?w = "page_of ''S1'' superviseur"
  let ?r = "handleValidation calm ?w ''R1'' rejete_v None"
  have f: "find (\<lambda>d. d_id d = ''R1'') (demandes ?w) = Some (mk_demande ''R1'' ''D1'' en_attente 10)"
    by code_simp
  have c: "\<forall>r\<in>set (tbl_demandes_carburant ?w).
             d_id r = ''R1'' \<longrightarrow> d_statut r = d_statut (mk_demande ''R1'' ''D1'' en_attente 10)"
    by code_simp
  have s: "map d_statut (tbl_demandes_carburant (snd ?r)) = [rejete, en_attente]"
    by code_simp
  from decision_on_current_status_moves_forward [OF f exit_to_pair [OF refl], of calm rejete_v None] c
  have "list_all2 (\<lambda>old new. d_id new = d_id old \<and>
       (d_statut new = d_statut old \<or> moves_forward (d_statut old) (d_statut new)))
     (tbl_demandes_carburant ?w) (tbl_demandes_carburant (snd ?r))"
    by blast
  with f s show ?thesis by simp
qed

text \<open>
  The claim as stated covers every sequence of operations. The supervisor rejects R1
  while the list cannot be fetched again, and then approves it from the same list: the
  second call succeeds, and the stored status goes from \<open>rejete\<close> back to
  \<open>valide_superviseur\<close>.
\<close>

theorem rejected_request_approved_counterexample:
  "map d_statut (tbl_demandes_carburant (unreloaded_after rejete_v)) = [rejete, en_attente] \<and>
   fst (handleValidation calm (unreloaded_after rejete_v) ''R1'' approuve None) = Succes \<and>
   map d_statut (tbl_demandes_carburant
     (snd (handleValidation calm (unreloaded_after rejete_v) ''R1'' approuve None))) =
     [valide_superviseur, en_attente] \<and>
   \<not> moves_forward rejete valide_superviseur"
  by code_simp

subsection \<open>A request that is not in the list\<close>

text \<open>
  Claim C6, as the code has it. When the identifier matches no request of the page's
  list, \<^verbatim>\<open>handleValidation\<close> returns at once: the world is exactly as before, so
  nothing is written and no message, of any kind, is shown.
\<close>

theorem unknown_request_returns_silently:
  assumes "find (\<lambda>d. d_id d = demandeId) (demandes w) = None"
  shows "handleValidation e w demandeId statut commentaire = (Returned, w)"
  using assms by (rule hv_not_found)

theorem unknown_request_returns_silently_witness:
  "find (\<lambda>d. d_id d = ''R9'') (demandes (page_of ''Dir1'' directeur)) = None \<and>
   handleValidation calm (page_of ''Dir1'' directeur) ''R9'' approuve None =
     (Returned, page_of ''Dir1'' directeur)"
proof -
  have f: "find (\<lambda>d. d_id d = ''R9'') (demandes (page_of ''Dir1'' directeur)) = None"
    by code_simp
  from f unknown_request_returns_silently [OF f] show ?thesis by simp
qed

text \<open>
  The claim as stated asks for a not-found error surfaced to the caller. For the
  identifier R9, which neither the list nor the table holds, the supervisor's call
  returns without showing any message.
\<close>

theorem unknown_request_no_error_shown_counterexample:
  "\<not> list_ex (\<lambda>r. d_id r = ''R9'') (tbl_demandes_carburant (page_of ''S1'' superviseur)) \<and>
   fst (handleValidation calm (page_of ''S1'' superviseur) ''R9'' approuve None) = Returned \<and>
   new_toasts (page_of ''S1'' superviseur)
     (snd (handleValidation calm (page_of ''S1'' superviseur) ''R9'' approuve None)) = []"
  by code_simp

subsection \<open>Who sees which requests\<close>

text \<open>
  Claim C7. For a signed-in user whose profile is the session's row of
  \<^verbatim>\<open>utilisateurs\<close>, a fetch that does not fail puts into the page's list: for a
  \<open>chauffeur\<close>, exactly the stored requests of that user, each once; for every other
  role (\<open>superviseur\<close>, \<open>pompiste\<close>, \<open>directeur\<close>, \<open>admin\<close>), all stored requests,
  each once. The list is by descending date, whatever order the database gives to
  requests of equal date. A request of somebody else never reaches a driver's list, by
  the page's own filter alone (whatever the session) and by the read policy alone
  (whatever the page holds as profile). The tables and the bucket are left as they are.
\<close>

theorem fetchDemandes_visible_requests:
  "(user w = Some u \<and> auth_uid w = Some (u_id u) \<and> db_role w = Some (u_role u) \<and>
    \<not> fetch_error e \<longrightarrow>
      mset (demandes (fetchDemandes e w)) =
        mset (if u_role u = chauffeur
              then filter (\<lambda>d. d_id_utilisateur d = u_id u) (tbl_demandes_carburant w)
              else tbl_demandes_carburant w) \<and>
      set (demandes (fetchDemandes e w)) =
        (if u_role u = chauffeur
         then {d \<in> set (tbl_demandes_carburant w). d_id_utilisateur d = u_id u}
         else set (tbl_demandes_carburant w))) \<and>
   (\<not> fetch_error e \<longrightarrow>
      sorted (rev (map d_date_demande (demandes (fetchDemandes e w))))) \<and>
   (user w = Some u \<and> u_role u = chauffeur \<and> \<not> fetch_error e \<longrightarrow>
      (\<forall>d\<in>set (demandes (fetchDemandes e w)). d_id_utilisateur d = u_id u)) \<and>
   (auth_uid w = Some uid \<and> db_role w = Some chauffeur \<and> \<not> fetch_error e \<longrightarrow>
      (\<forall>d\<in>set (demandes (fetchDemandes e w)). d_id_utilisateur d = uid)) \<and>
   store_of (fetchDemandes e w) = store_of w"
proof (intro conjI impI ballI)
  assume a: "user w = Some u \<and> auth_uid w = Some (u_id u) \<and> db_role w = Some (u_role u) \<and>
    \<not> fetch_error e"
  then have us: "user w = Some u" and au: "auth_uid w = Some (u_id u)"
    and ro: "db_role w = Some (u_role u)" and fe: "\<not> fetch_error e"
    by simp_all
  have l: "demandes (fetchDemandes e w) =
             newest_first e
               (if u_role u = chauffeur
                then filter (\<lambda>d. d_id_utilisateur d = u_id u) (tbl_demandes_carburant w)
                else tbl_demandes_carburant w)"
  proof (cases "u_role u = chauffeur")
    case True
    with us fe show ?thesis
      by (simp add: fetchDemandes_list filter_own [OF au])
  next
    case False
    with us fe show ?thesis
      by (simp add: fetchDemandes_list filter_all [OF au ro False, simplified])
  qed
  show "mset (demandes (fetchDemandes e w)) =
        mset (if u_role u = chauffeur
              then filter (\<lambda>d. d_id_utilisateur d = u_id u) (tbl_demandes_carburant w)
              else tbl_demandes_carburant w)"
    unfolding l by (rule mset_newest_first)
  show "set (demandes (fetchDemandes e w)) =
        (if u_role u = chauffeur
         then {d \<in> set (tbl_demandes_carburant w). d_id_utilisateur d = u_id u}
         else set (tbl_demandes_carburant w))"
    unfolding l by simp
next
  assume "\<not> fetch_error e"
  then show "sorted (rev (map d_date_demande (demandes (fetchDemandes e w))))"
    by (simp add: fetchDemandes_list sorted_newest_first)
next
  fix d
  assume a: "user w = Some u \<and> u_role u = chauffeur \<and> \<not> fetch_error e"
    and d: "d \<in> set (demandes (fetchDemandes e w))"
  from a d show "d_id_utilisateur d = u_id u"
    by (simp add: fetchDemandes_list)
next
  fix d
  assume a: "auth_uid w = Some uid \<and> db_role w = Some chauffeur \<and> \<not> fetch_error e"
    and d: "d \<in> set (demandes (fetchDemandes e w))"
  from a d have p: "policy_select_demande w d" by (simp add: fetchDemandes_list)
  from a have "db_role w = Some chauffeur" by simp
  then have "auth_uid w = Some (d_id_utilisateur d)"
    using p by (rule policy_select_chauffeur)
  with a show "d_id_utilisateur d = uid" by simp
next
  show "store_of (fetchDemandes e w) = store_of w" by (rule fetchDemandes_store)
qed

theorem fetchDemandes_visible_requests_witness:
  "list_all (\<lambda>d. d_id_utilisateur d = ''D1'')
     (demandes (fetchDemandes calm (sign_in ''D1'' chauffeur fleet))) \<and>
   length (demandes (fetchDemandes calm (sign_in ''D1'' chauffeur fleet))) = 1 \<and>
   length (demandes (fetchDemandes calm (sign_in ''A1'' admin fleet))) = 2 \<and>
   map d_id_utilisateur (tbl_demandes_carburant fleet) = [''D1'', ''D2''] \<and>
   sorted (rev (map d_date_demande
     (demandes (fetchDemandes calm (sign_in ''A1'' admin fleet))))) \<and>
   store_of (fetchDemandes calm (sign_in ''D1'' chauffeur fleet)) =
     store_of (sign_in ''D1'' chauffeur fleet)"
proof -
  let ?d = "sign_in ''D1'' chauffeur fleet"
  let ?a = "sign_in ''A1'' admin fleet"
  have f: "\<not> fetch_error calm" by code_simp
  have d: "user ?d = Some (mk_user ''D1'' chauffeur)"
    "auth_uid ?d = Some (u_id (mk_user ''D1'' chauffeur))"
    "db_role ?d = Some (u_role (mk_user ''D1'' chauffeur))"
    by code_simp+
  have a: "user ?a = Some (mk_user ''A1'' admin)"
    "auth_uid ?a = Some (u_id (mk_user ''A1'' admin))"
    "db_role ?a = Some (u_role (mk_user ''A1'' admin))"
    by code_simp+
  have rd: "u_role (mk_user ''D1'' chauffeur) = chauffeur" "u_id (mk_user ''D1'' chauffeur) = ''D1''"
    and ra: "u_role (mk_user ''A1'' admin) \<noteq> chauffeur"
    by (simp_all add: mk_user_def)
  note cd = fetchDemandes_visible_requests [where w = ?d and u = "mk_user ''D1'' chauffeur" and e = calm and uid = "''D1''"]
  note ca = fetchDemandes_visible_requests [where w = ?a and u = "mk_user ''A1'' admin" and e = calm and uid = "''A1''"]
  have hd: "user ?d = Some (mk_user ''D1'' chauffeur) \<and>
            auth_uid ?d = Some (u_id (mk_user ''D1'' chauffeur)) \<and>
            db_role ?d = Some (u_role (mk_user ''D1'' chauffeur)) \<and> \<not> fetch_error calm"
    using d f by blast
  have ha: "user ?a = Some (mk_user ''A1'' admin) \<and>
            auth_uid ?a = Some (u_id (mk_user ''A1'' admin)) \<and>
            db_role ?a = Some (u_role (mk_user ''A1'' admin)) \<and> \<not> fetch_error calm"
    using a f by blast
  have hc: "user ?d = Some (mk_user ''D1'' chauffeur) \<and>
            u_role (mk_user ''D1'' chauffeur) = chauffeur \<and> \<not> fetch_error calm"
    using d f rd by blast
  from cd hd have "mset (demandes (fetchDemandes calm ?d)) =
      mset (if u_role (mk_user ''D1'' chauffeur) = chauffeur
            then filter (\<lambda>d. d_id_utilisateur d = u_id (mk_user ''D1'' chauffeur))
                   (tbl_demandes_carburant ?d)
            else tbl_demandes_carburant ?d)"
    by blast
  then have md: "mset (demandes (fetchDemandes calm ?d)) =
      mset (filter (\<lambda>d. d_id_utilisateur d = ''D1'') (tbl_demandes_carburant ?d))"
    by (simp only: rd simp_thms if_True)
  from cd hc have "\<forall>x\<in>set (demandes (fetchDemandes calm ?d)).
      d_id_utilisateur x = u_id (mk_user ''D1'' chauffeur)"
    by blast
  then have od: "\<forall>x\<in>set (demandes (fetchDemandes calm ?d)). d_id_utilisateur x = ''D1''"
    by (simp only: rd)
  from cd have sd: "store_of (fetchDemandes calm ?d) = store_of ?d"
    by blast
  from ca ha have "mset (demandes (fetchDemandes calm ?a)) =
      mset (if u_role (mk_user ''A1'' admin) = chauffeur
            then filter (\<lambda>d. d_id_utilisateur d = u_id (mk_user ''A1'' admin))
                   (tbl_demandes_carburant ?a)
            else tbl_demandes_carburant ?a)"
    by blast
  then have ma: "mset (demandes (fetchDemandes calm ?a)) = mset (tbl_demandes_carburant ?a)"
    by (simp only: ra simp_thms if_False)
  from ca f have sa: "sorted (rev (map d_date_demande (demandes (fetchDemandes calm ?a))))"
    by blast
  have "length (demandes (fetchDemandes calm ?d)) =
          length (filter (\<lambda>d. d_id_utilisateur d = ''D1'') (tbl_demandes_carburant ?d))"
    using md by (rule mset_eq_length)
  also have "\<dots> = 1" by code_simp
  finally have ld: "length (demandes (fetchDemandes calm ?d)) = 1" .
  have "length (demandes (fetchDemandes calm ?a)) = length (tbl_demandes_carburant ?a)"
    using ma by (rule mset_eq_length)
  also have "\<dots> = 2" by code_simp
  finally have la: "length (demandes (fetchDemandes calm ?a)) = 2" .
  have t: "map d_id_utilisateur (tbl_demandes_carburant fleet) = [''D1'', ''D2'']"
    by code_simp
  from od have "list_all (\<lambda>d. d_id_utilisateur d = ''D1'') (demandes (fetchDemandes calm ?d))"
    by (simp add: list_all_iff)
  with ld la t sa sd show ?thesis by blast
qed

subsection \<open>Submitting a request\<close>

text \<open>
  Claim C8, as the code has it. The form's rules pass exactly when a vehicle is
  chosen, the odometer is at least 0, the quantity is at least 0.01, and site, mission
  and reason are filled in. When they pass, the user is signed in with the session the
  database knows as a \<open>chauffeur\<close>, the vehicle exists and the insert request does not
  fail, one request is appended: pending, owned by the user, for that vehicle, dated
  now. When a rule fails, the field errors are set and nothing else changes. When the
  database does not know the session as a \<open>chauffeur\<close>, the insert is refused, the
  generic creation error is shown and no request is stored. The vehicles the form
  offers are the ones that were active when the page fetched them; nothing at
  submission looks at the vehicle's \<^verbatim>\<open>actif\<close> flag.
\<close>

theorem handleSubmit_creates_pending_request:
  "(validate_form data = [] \<longleftrightarrow>
      id_vehicule data \<noteq> [] \<and> (\<exists>km. km_compteur data = Some km \<and> 0 \<le> km) \<and>
      (\<exists>q. quantite_demandee data = Some q \<and> 1 / 100 \<le> q) \<and>
      site data \<noteq> [] \<and> mission data \<noteq> [] \<and> raison data \<noteq> []) \<and>
   (validate_form data = [] \<and> user w = Some u \<and> auth_uid w = Some (u_id u) \<and>
    role_in w [chauffeur] \<and> list_ex (\<lambda>v. v_id v = id_vehicule data) (tbl_vehicules w) \<and>
    \<not> insert_error e \<longrightarrow>
      (\<exists>row. tbl_demandes_carburant (snd (handleSubmit e w data)) =
               tbl_demandes_carburant w @ [row] \<and>
             d_statut row = en_attente \<and> d_id_utilisateur row = u_id u \<and>
             d_id_vehicule row = id_vehicule data \<and> d_date_demande row = now e \<and>
             d_date_modification row = now e)) \<and>
   (validate_form data \<noteq> [] \<longrightarrow>
      handleSubmit e w data = (Champs_invalides, w\<lparr>errors := validate_form data\<rparr>)) \<and>
   (validate_form data = [] \<and> user w = Some u \<and> \<not> role_in w [chauffeur] \<longrightarrow>
      handleSubmit e w data =
        (Erreur, (toast_error ''Erreur lors de la creation de la demande'' (w\<lparr>errors := []\<rparr>))
                   \<lparr>loading_form := False\<rparr>)) \<and>
   (\<not> vehicules_error e \<longrightarrow> list_all v_actif (vehicules (fetchVehicules e w)))"
proof (intro conjI impI)
  show "validate_form data = [] \<longleftrightarrow>
      id_vehicule data \<noteq> [] \<and> (\<exists>km. km_compteur data = Some km \<and> 0 \<le> km) \<and>
      (\<exists>q. quantite_demandee data = Some q \<and> 1 / 100 \<le> q) \<and>
      site data \<noteq> [] \<and> mission data \<noteq> [] \<and> raison data \<noteq> []"
    by (rule validate_form_ok)
next
  assume a: "validate_form data = [] \<and> user w = Some u \<and> auth_uid w = Some (u_id u) \<and>
    role_in w [chauffeur] \<and> list_ex (\<lambda>v. v_id v = id_vehicule data) (tbl_vehicules w) \<and>
    \<not> insert_error e"
  let ?w = "w\<lparr>errors := []\<rparr>"
  from a obtain km q where km: "km_compteur data = Some km" and q: "quantite_demandee data = Some q"
    by (auto simp: validate_form_ok)
  have r: "role_in ?w [chauffeur]"
    using a by (simp add: role_in_cong [of ?w w])
  from a have us: "user ?w = Some u" and au: "auth_uid ?w = Some (u_id u)"
    and v: "list_ex (\<lambda>v. v_id v = id_vehicule data) (tbl_vehicules ?w)"
    and ie: "\<not> insert_error e"
    by simp_all
  from db_insert_demande_accepts [OF ie km q au r v, of en_attente] obtain row where
    i: "db_insert_demande e ?w data (u_id u) en_attente =
          Inr (row, ?w\<lparr>tbl_demandes_carburant := tbl_demandes_carburant ?w @ [row]\<rparr>)"
    by blast
  from os_inserted [OF us i] a
  have "tbl_demandes_carburant (snd (handleSubmit e w data)) = tbl_demandes_carburant w @ [row]"
    by (simp add: handleSubmit_def)
  with db_insert_demande_Inr [OF i]
  show "\<exists>row. tbl_demandes_carburant (snd (handleSubmit e w data)) =
               tbl_demandes_carburant w @ [row] \<and>
             d_statut row = en_attente \<and> d_id_utilisateur row = u_id u \<and>
             d_id_vehicule row = id_vehicule data \<and> d_date_demande row = now e \<and>
             d_date_modification row = now e"
    by blast
next
  assume "validate_form data \<noteq> []"
  then show "handleSubmit e w data = (Champs_invalides, w\<lparr>errors := validate_form data\<rparr>)"
    by (simp add: handleSubmit_def)
next
  assume a: "validate_form data = [] \<and> user w = Some u \<and> \<not> role_in w [chauffeur]"
  let ?w = "w\<lparr>errors := []\<rparr>"
  have "\<not> role_in ?w [chauffeur]"
    using a by (simp add: role_in_cong [of ?w w])
  from db_insert_demande_refuses [OF this, of e data "u_id u" en_attente] obtain err where
    i: "db_insert_demande e ?w data (u_id u) en_attente = Inl err"
    by blast
  from a have us: "user ?w = Some u" by simp
  from os_insert_error [OF us i] a
  show "handleSubmit e w data =
        (Erreur, (toast_error ''Erreur lors de la creation de la demande'' (w\<lparr>errors := []\<rparr>))
                   \<lparr>loading_form := False\<rparr>)"
    by (simp add: handleSubmit_def)
next
  assume "\<not> vehicules_error e"
  then show "list_all v_actif (vehicules (fetchVehicules e w))"
    by (rule fetchVehicules_active)
qed

theorem handleSubmit_creates_pending_request_witness:
  "validate_form (form_for ''V1'') = [] \<and>
   (\<exists>row. tbl_demandes_carburant
            (snd (handleSubmit calm (sign_in ''D1'' chauffeur fleet) (form_for ''V1''))) =
            tbl_demandes_carburant (sign_in ''D1'' chauffeur fleet) @ [row] \<and>
          d_statut row = en_attente \<and>
          d_id_utilisateur row = u_id (mk_user ''D1'' chauffeur) \<and>
          d_id_vehicule row = id_vehicule (form_for ''V1'') \<and>
          d_date_demande row = now calm \<and> d_date_modification row = now calm) \<and>
   validate_form ((form_for ''V1'')\<lparr>quantite_demandee := Some 0\<rparr>) \<noteq> [] \<and>
   fst (handleSubmit calm (sign_in ''D1'' chauffeur fleet)
          ((form_for ''V1'')\<lparr>quantite_demandee := Some 0\<rparr>)) = Champs_invalides \<and>
   fst (handleSubmit calm (sign_in ''S1'' superviseur fleet) (form_for ''V1'')) = Erreur"
proof -
  let ?w = "sign_in ''D1'' chauffeur fleet"
  let ?s = "sign_in ''S1'' superviseur fleet"
  let ?zero = "(form_for ''V1'')\<lparr>quantite_demandee := Some 0\<rparr>"
  have h: "validate_form (form_for ''V1'') = []" "user ?w = Some (mk_user ''D1'' chauffeur)"
    "auth_uid ?w = Some (u_id (mk_user ''D1'' chauffeur))" "role_in ?w [chauffeur]"
    "list_ex (\<lambda>v. v_id v = id_vehicule (form_for ''V1'')) (tbl_vehicules ?w)"
    "\<not> insert_error calm"
    by code_simp+
  have z: "validate_form ?zero \<noteq> []" by code_simp
  have s: "user ?s = Some (mk_user ''S1'' superviseur)" "\<not> role_in ?s [chauffeur]"
    by code_simp+
  from handleSubmit_creates_pending_request [where data = "form_for ''V1''" and w = ?w and u = "mk_user ''D1'' chauffeur"
      and e = calm] h
  have 1: "\<exists>row. tbl_demandes_carburant (snd (handleSubmit calm ?w (form_for ''V1''))) =
            tbl_demandes_carburant ?w @ [row] \<and>
          d_statut row = en_attente \<and>
          d_id_utilisateur row = u_id (mk_user ''D1'' chauffeur) \<and>
          d_id_vehicule row = id_vehicule (form_for ''V1'') \<and>
          d_date_demande row = now calm \<and> d_date_modification row = now calm"
    by blast
  from handleSubmit_creates_pending_request [where data = ?zero and w = ?w and u = "mk_user ''D1'' chauffeur" and e = calm] z
  have 2: "fst (handleSubmit calm ?w ?zero) = Champs_invalides"
    by simp
  from handleSubmit_creates_pending_request [where data = "form_for ''V1''" and w = ?s and u = "mk_user ''S1'' superviseur"
      and e = calm] h(1) s
  have 3: "fst (handleSubmit calm ?s (form_for ''V1'')) = Erreur"
    by simp
  from h(1) 1 z 2 3 show ?thesis by blast
qed

text \<open>
  The claim as stated lets no request through for a vehicle that is not active.
  Vehicle V2 was still offered by the form (it was active when the page was opened)
  and has been retired since; driver D1 submits for it, the submission succeeds and
  the request is stored.
\<close>

theorem retired_vehicle_request_created_counterexample:
  "list_ex (\<lambda>v. v_id v = ''V2'' \<and> v_actif v) (vehicules form_page) \<and>
   list_ex (\<lambda>v. v_id v = ''V2'' \<and> \<not> v_actif v) (tbl_vehicules form_page) \<and>
   fst (handleSubmit calm form_page (form_for ''V2'')) = Succes \<and>
   map (\<lambda>r. (d_id r, d_id_vehicule r, d_statut r))
     (tbl_demandes_carburant (snd (handleSubmit calm form_page (form_for ''V2'')))) =
     [(''R1'', ''V1'', en_attente), (''R2'', ''V1'', en_attente), (''id-0'', ''V2'', en_attente)]"
  by code_simp

subsection \<open>A failed upload after the request was created\<close>

text \<open>
  Claim C9, as the code has it. When the request was inserted and an upload of a
  selected file then fails, the request stays stored (pending), no log entry is written
  and the page does not navigate; the call ends in the same catch block as a failed
  insert and shows the same message, "Erreur lors de la creation de la demande". The
  report differs from the one of a full success, not from the one of a plain failure.
\<close>

theorem failed_upload_keeps_request_reports_error:
  assumes "user w = Some u"
    and "db_insert_demande e w data (u_id u) en_attente = Inr (demande, w1)"
    and "list_ex (upload_error e) (uploadedFiles w)"
    and "db_insert_demande e' w data (u_id u) en_attente = Inl err"
  shows "fst (onSubmit e w data) = Erreur \<and>
         tbl_demandes_carburant (snd (onSubmit e w data)) = tbl_demandes_carburant w @ [demande] \<and>
         d_statut demande = en_attente \<and>
         tbl_logs (snd (onSubmit e w data)) = tbl_logs w \<and>
         location (snd (onSubmit e w data)) = location w \<and>
         new_toasts w (snd (onSubmit e w data)) =
           [Toast_error ''Erreur lors de la creation de la demande''] \<and>
         fst (onSubmit e' w data) = Erreur \<and>
         tbl_demandes_carburant (snd (onSubmit e' w data)) = tbl_demandes_carburant w \<and>
         new_toasts w (snd (onSubmit e' w data)) =
           [Toast_error ''Erreur lors de la creation de la demande'']"
proof -
  from db_insert_demande_Inr [OF assms(2)]
  have w1: "w1 = w\<lparr>tbl_demandes_carburant := tbl_demandes_carburant w @ [demande]\<rparr>"
    and st: "d_statut demande = en_attente"
    by simp_all
  from assms(3) have ne: "uploadedFiles w1 \<noteq> []" and ex: "list_ex (upload_error e) (uploadedFiles w1)"
    unfolding w1 by auto
  note r = os_upload_error [OF assms(1,2) ne uploadFiles_fails [OF ex]]
  have "tbl_demandes_carburant (snd (onSubmit e w data)) = tbl_demandes_carburant w1"
    by (rule os_inserted [OF assms(1,2)])
  moreover have "tbl_logs (snd (onSubmit e w data)) = tbl_logs w"
    "location (snd (onSubmit e w data)) = location w"
    "new_toasts w (snd (onSubmit e w data)) =
           [Toast_error ''Erreur lors de la creation de la demande'']"
    unfolding r by (simp_all add: toast_error_def uploadFiles_tables w1 new_toasts_def)
  moreover have "fst (onSubmit e w data) = Erreur" unfolding r by simp
  moreover note r' = os_insert_error [OF assms(1,4)]
  have "fst (onSubmit e' w data) = Erreur"
    "tbl_demandes_carburant (snd (onSubmit e' w data)) = tbl_demandes_carburant w"
    "new_toasts w (snd (onSubmit e' w data)) =
           [Toast_error ''Erreur lors de la creation de la demande'']"
    unfolding r' by (simp_all add: toast_error_def new_toasts_def)
  ultimately show ?thesis using st w1 by simp
qed

theorem failed_upload_keeps_request_reports_error_witness:
  "fst (onSubmit (calm\<lparr>upload_error := (\<lambda>file. True)\<rparr>)
          (form_page\<lparr>uploadedFiles := [ticket]\<rparr>) (form_for ''V1'')) = Erreur \<and>
   tbl_demandes_carburant (snd (onSubmit (calm\<lparr>upload_error := (\<lambda>file. True)\<rparr>)
          (form_page\<lparr>uploadedFiles := [ticket]\<rparr>) (form_for ''V1''))) =
     tbl_demandes_carburant (form_page\<lparr>uploadedFiles := [ticket]\<rparr>) @
       [mk_demande ''id-0'' ''D1'' en_attente 1000] \<and>
   d_statut (mk_demande ''id-0'' ''D1'' en_attente 1000) = en_attente \<and>
   tbl_logs (snd (onSubmit (calm\<lparr>upload_error := (\<lambda>file. True)\<rparr>)
          (form_page\<lparr>uploadedFiles := [ticket]\<rparr>) (form_for ''V1''))) =
     tbl_logs (form_page\<lparr>uploadedFiles := [ticket]\<rparr>) \<and>
   location (snd (onSubmit (calm\<lparr>upload_error := (\<lambda>file. True)\<rparr>)
          (form_page\<lparr>uploadedFiles := [ticket]\<rparr>) (form_for ''V1''))) =
     location (form_page\<lparr>uploadedFiles := [ticket]\<rparr>) \<and>
   new_toasts (form_page\<lparr>uploadedFiles := [ticket]\<rparr>)
     (snd (onSubmit (calm\<lparr>upload_error := (\<lambda>file. True)\<rparr>)
          (form_page\<lparr>uploadedFiles := [ticket]\<rparr>) (form_for ''V1''))) =
     [Toast_error ''Erreur lors de la creation de la demande''] \<and>
   fst (onSubmit (calm\<lparr>insert_error := True\<rparr>)
          (form_page\<lparr>uploadedFiles := [ticket]\<rparr>) (form_for ''V1'')) = Erreur \<and>
   tbl_demandes_carburant (snd (onSubmit (calm\<lparr>insert_error := True\<rparr>)
          (form_page\<lparr>uploadedFiles := [ticket]\<rparr>) (form_for ''V1''))) =
     tbl_demandes_carburant (form_page\<lparr>uploadedFiles := [ticket]\<rparr>) \<and>
   new_toasts (form_page\<lparr>uploadedFiles := [ticket]\<rparr>)
     (snd (onSubmit (calm\<lparr>insert_error := True\<rparr>)
          (form_page\<lparr>uploadedFiles := [ticket]\<rparr>) (form_for ''V1''))) =
     [Toast_error ''Erreur lors de la creation de la demande'']"
proof -
  let ?w = "form_page\<lparr>uploadedFiles := [ticket]\<rparr>"
  let ?up = "calm\<lparr>upload_error := (\<lambda>file. True)\<rparr>"
  let ?ins = "calm\<lparr>insert_error := True\<rparr>"
  have u: "user ?w = Some (mk_user ''D1'' chauffeur)" by code_simp
  have i: "db_insert_demande ?up ?w (form_for ''V1'') (u_id (mk_user ''D1'' chauffeur))
             en_attente =
           Inr (mk_demande ''id-0'' ''D1'' en_attente 1000,
                ?w\<lparr>tbl_demandes_carburant := tbl_demandes_carburant ?w @
                     [mk_demande ''id-0'' ''D1'' en_attente 1000]\<rparr>)"
    by code_simp
  have f: "list_ex (upload_error ?up) (uploadedFiles ?w)" by code_simp
  have n: "db_insert_demande ?ins ?w (form_for ''V1'') (u_id (mk_user ''D1'' chauffeur))
             en_attente = Inl Request_failed"
    by code_simp
  show ?thesis by (rule failed_upload_keeps_request_reports_error [OF u i f n])
qed

text \<open>
  The claim as stated wants a report of partial success that is not a plain failure.
  With one file selected, a submission whose upload fails and a submission whose insert
  fails end alike: the same exit, the same single message; only the first has stored
  the request.
\<close>

theorem failed_upload_not_distinct_from_failure_counterexample:
  "fst (handleSubmit (calm\<lparr>upload_error := (\<lambda>file. True)\<rparr>)
          (form_page\<lparr>uploadedFiles := [ticket]\<rparr>) (form_for ''V1'')) = Erreur \<and>
   fst (handleSubmit (calm\<lparr>insert_error := True\<rparr>)
          (form_page\<lparr>uploadedFiles := [ticket]\<rparr>) (form_for ''V1'')) = Erreur \<and>
   new_toasts (form_page\<lparr>uploadedFiles := [ticket]\<rparr>)
     (snd (handleSubmit (calm\<lparr>upload_error := (\<lambda>file. True)\<rparr>)
          (form_page\<lparr>uploadedFiles := [ticket]\<rparr>) (form_for ''V1''))) =
   new_toasts (form_page\<lparr>uploadedFiles := [ticket]\<rparr>)
     (snd (handleSubmit (calm\<lparr>insert_error := True\<rparr>)
          (form_page\<lparr>uploadedFiles := [ticket]\<rparr>) (form_for ''V1''))) \<and>
   map d_id (tbl_demandes_carburant
     (snd (handleSubmit (calm\<lparr>upload_error := (\<lambda>file. True)\<rparr>)
          (form_page\<lparr>uploadedFiles := [ticket]\<rparr>) (form_for ''V1'')))) =
     [''R1'', ''R2'', ''id-0''] \<and>
   map d_id (tbl_demandes_carburant
     (snd (handleSubmit (calm\<lparr>insert_error := True\<rparr>)
          (form_page\<lparr>uploadedFiles := [ticket]\<rparr>) (form_for ''V1'')))) =
     [''R1'', ''R2'']"
  by code_simp

subsection \<open>The buttons and the handler agree\<close>

text \<open>
  Claim C10. For a request of the page's list, \<^verbatim>\<open>canValidate\<close> is true exactly when
  the chain of conditionals of \<^verbatim>\<open>handleValidation\<close> does not end in its last
  \<^verbatim>\<open>else\<close>, that is exactly when the call is not refused as "Action non autorisee".
\<close>

theorem canValidate_iff_not_unauthorized:
  assumes "find (\<lambda>d. d_id d = demandeId) (demandes w) = Some demande"
  shows "(canValidate w demande \<longleftrightarrow>
            determine_next_status (map_option u_role (user w)) (d_statut demande) statut \<noteq> None) \<and>
         (canValidate w demande \<longleftrightarrow>
            fst (handleValidation e w demandeId statut commentaire) \<noteq> Non_autorisee)"
proof (cases "determine_next_status (map_option u_role (user w)) (d_statut demande) statut")
  case None
  with hv_unauthorized [OF assms None] show ?thesis
    by (simp add: canValidate_determine [of w demande statut])
next
  case (Some p)
  from hv_authorized_exit [OF assms Some, of e commentaire]
  have "fst (handleValidation e w demandeId statut commentaire) \<noteq> Non_autorisee"
    by auto
  with Some show ?thesis
    by (simp add: canValidate_determine [of w demande statut])
qed

theorem canValidate_iff_not_unauthorized_witness:
  "find (\<lambda>d. d_id d = ''R1'') (demandes (page_of ''F1'' pompiste)) =
     Some (mk_demande ''R1'' ''D1'' en_attente 10) \<and>
   \<not> canValidate (page_of ''F1'' pompiste) (mk_demande ''R1'' ''D1'' en_attente 10) \<and>
   fst (handleValidation calm (page_of ''F1'' pompiste) ''R1'' approuve None) = Non_autorisee"
proof -
  have f: "find (\<lambda>d. d_id d = ''R1'') (demandes (page_of ''F1'' pompiste)) =
     Some (mk_demande ''R1'' ''D1'' en_attente 10)"
    by code_simp
  have c: "\<not> canValidate (page_of ''F1'' pompiste) (mk_demande ''R1'' ''D1'' en_attente 10)"
    by code_simp
  from canValidate_iff_not_unauthorized [OF f, of approuve calm None] c f show ?thesis by simp
qed

end
